theory Spec2Isabelle
  imports Complex_Main "HOL-Library.Sublist"
begin

section \<open>Tables\<close>

text \<open>
  A cell of a table as pandas holds it after \<open>read_csv\<close>: a missing value (an empty field
  is read as NaN), a number, or a string. Numbers are the rational values of finite
  floats and of integers; the non-finite floats are outside this model. Every weight,
  threshold and indicator of the pipeline is a multiple of one half, so the arithmetic of
  the scores is exact on floats and on rationals alike.
\<close>

datatype cell = NA | Num rat | Str string

definition is_str :: "cell \<Rightarrow> bool" where
  "is_str x = (case x of Str s \<Rightarrow> True | _ \<Rightarrow> False)"

text \<open>
  A row reads a column name to a cell. A data frame is the list of its column names, the
  list of those of its columns that have a numeric dtype (the others have the dtype
  \<open>object\<close>, the dtype of a column of strings), and the list of its rows, in index order.
  The index itself is not modelled: every frame of the pipeline carries the range index of
  the merged frame, so the index alignment of a column assignment is the position in the
  list.
\<close>

type_synonym row = "string \<Rightarrow> cell"

record frame =
  columns :: "string list"
  numeric :: "string list"
  rows :: "row list"

definition na_row :: row where
  "na_row = (\<lambda>c. NA)"

definition restrict_row :: "string list \<Rightarrow> row \<Rightarrow> row" where
  "restrict_row cols r = (\<lambda>c. if c \<in> set cols then r c else NA)"

text \<open>\<open>df[cols]\<close>: the frame with the listed columns, in the listed order.\<close>

definition select_columns :: "string list \<Rightarrow> frame \<Rightarrow> frame" where
  "select_columns cols df =
     \<lparr>columns = cols, numeric = filter (\<lambda>c. c \<in> set cols) (numeric df),
      rows = map (restrict_row cols) (rows df)\<rparr>"

text \<open>The number a numeric cell holds (the indicator columns hold 0 or 1).\<close>

fun cell_num :: "cell \<Rightarrow> rat" where
  "cell_num (Num v) = v"
| "cell_num NA = 0"
| "cell_num (Str s) = 0"

section \<open>Strings\<close>

text \<open>
  A string is the list of the bytes of its UTF-8 encoding.
  \<open>s.replace(old, '')\<close> for a non-empty \<open>old\<close>: the occurrences are found from the left
  and do not overlap. The result is not searched again. The strings removed here are
  ASCII, and no byte of a character beyond ASCII is an ASCII byte, so the bytes removed
  are those of the characters Python removes.
\<close>

fun str_remove :: "string \<Rightarrow> string \<Rightarrow> string" where
  "str_remove old [] = []"
| "str_remove old (c # cs) =
     (if old \<noteq> [] \<and> take (length old) (c # cs) = old
      then str_remove old (drop (length old) (c # cs))
      else c # str_remove old cs)"

text \<open>
  \<open>s.lower()\<close> is used only in the test \<open>s.lower() == 'direct'\<close>. It is modelled on
  the ASCII letters, which decides the test as Python does: the only characters beyond
  ASCII whose lower case holds an ASCII letter are the Kelvin sign (\<open>k\<close>, which does not
  occur in \<open>direct\<close>) and the dotted capital I (whose lower case is \<open>i\<close> followed by a
  combining dot, so the result is not \<open>direct\<close>).
\<close>

definition lower_char :: "char \<Rightarrow> char" where
  "lower_char c =
     (case map_of (zip ''ABCDEFGHIJKLMNOPQRSTUVWXYZ'' ''abcdefghijklmnopqrstuvwxyz'') c of
        Some l \<Rightarrow> l | None \<Rightarrow> c)"

definition str_lower :: "string \<Rightarrow> string" where
  "str_lower s = map lower_char s"

section \<open>Value normalizer\<close>

text \<open>
  \<^verbatim>\<open>
  def clean_currency(x):
      if pd.isna(x): return 0
      if isinstance(x, (int, float)): return x
      clean_str = str(x).replace('KES', '').replace(',', '').replace(' ', '')
      try: return float(clean_str)
      except: return 0
  \<close>
  The same function stands in all three feature modules. Python's \<open>float\<close> is a builtin,
  taken as the parameter \<open>float_of\<close>: the value it returns, or the exception it
  raises. The result of \<open>clean_currency\<close> is a result of the same kind, so that a raise
  that left the function would show as \<open>Inl\<close>.
\<close>

datatype py_error =
  FileNotFoundError string | ValueError | AttributeError | KeyError string | TypeError

definition clean_currency :: "(string \<Rightarrow> py_error + rat) \<Rightarrow> cell \<Rightarrow> py_error + rat" where
  "clean_currency float_of x =
     (case x of
        NA \<Rightarrow> Inr 0
      | Num v \<Rightarrow> Inr v
      | Str s \<Rightarrow>
          (let clean_str = str_remove '' '' (str_remove '','' (str_remove ''KES'' s))
           in case float_of clean_str of
                Inr v \<Rightarrow> Inr v
              | Inl e \<Rightarrow> Inr 0))"

text \<open>
  A sample of \<open>float\<close> on the unsigned and signed decimal integers, for the examples:
  it agrees with Python on the strings it accepts and on the strings of the examples it
  rejects.
\<close>

definition digit_val :: "char \<Rightarrow> nat option" where
  "digit_val c = map_of (zip ''0123456789'' [0, 1, 2, 3, 4, 5, 6, 7, 8, 9]) c"

fun digits_val :: "nat \<Rightarrow> string \<Rightarrow> nat option" where
  "digits_val acc [] = Some acc"
| "digits_val acc (c # cs) =
     (case digit_val c of None \<Rightarrow> None | Some d \<Rightarrow> digits_val (10 * acc + d) cs)"

definition float_sample :: "string \<Rightarrow> py_error + rat" where
  "float_sample s =
     (case s of
        [] \<Rightarrow> Inl ValueError
      | c # cs \<Rightarrow>
          (if c = CHR ''-'' then
             (case (cs, digits_val 0 cs) of
                (_ # _, Some n) \<Rightarrow> Inr (- of_nat n)
              | _ \<Rightarrow> Inl ValueError)
           else
             (case digits_val 0 (c # cs) of
                Some n \<Rightarrow> Inr (of_nat n)
              | None \<Rightarrow> Inl ValueError)))"

section \<open>pandas operations\<close>

text \<open>
  The raw files are held as the tables \<open>read_csv\<close> parses them to. \<open>read_csv\<close> with
  \<open>usecols\<close> raises \<open>FileNotFoundError\<close> when there is no file at the path and
  \<open>ValueError\<close> when a listed column is not in the header; otherwise it keeps the listed
  columns, in the order of the file. It infers the dtype of each column from the cells: a
  column with rows and no string among them is numeric (a column of missing values only
  is a column of floats), every other column has the dtype \<open>object\<close>. The dtypes stored
  with a file are not read.
\<close>

type_synonym files = "string \<rightharpoonup> frame"

definition inferred_numeric :: "row list \<Rightarrow> string \<Rightarrow> bool" where
  "inferred_numeric rs c = (rs \<noteq> [] \<and> \<not> list_ex (\<lambda>r. is_str (r c)) rs)"

definition read_csv :: "files \<Rightarrow> string \<Rightarrow> string list \<Rightarrow> py_error + frame" where
  "read_csv fs path usecols =
     (case fs path of
        None \<Rightarrow> Inl (FileNotFoundError path)
      | Some t \<Rightarrow>
          (if list_all (\<lambda>c. c \<in> set (columns t)) usecols
           then Inr \<lparr>columns = filter (\<lambda>c. c \<in> set usecols) (columns t),
                     numeric = filter (inferred_numeric (rows t))
                                 (filter (\<lambda>c. c \<in> set usecols) (columns t)),
                     rows = map (restrict_row usecols) (rows t)\<rparr>
           else Inl ValueError))"

text \<open>
  \<open>df.drop_duplicates(subset=[key], keep='first')\<close>: the rows are visited in order, and a
  row is kept when no earlier row had its key. Missing keys are equal to each other here,
  as they are for pandas. The dtypes stay.
\<close>

fun drop_dup_rows :: "string \<Rightarrow> cell list \<Rightarrow> row list \<Rightarrow> row list" where
  "drop_dup_rows key seen [] = []"
| "drop_dup_rows key seen (r # rs) =
     (if r key \<in> set seen then drop_dup_rows key seen rs
      else r # drop_dup_rows key (r key # seen) rs)"

definition drop_duplicates :: "string \<Rightarrow> frame \<Rightarrow> frame" where
  "drop_duplicates key df = df\<lparr>rows := drop_dup_rows key [] (rows df)\<rparr>"

text \<open>
  \<open>pd.merge(left, right, left_on=.., right_on=.., how=..)\<close>. The rows follow the order of
  the left frame, each left row with its matching right rows in their order; missing keys
  match each other, as they do for pandas. The merged row reads a column of the left frame
  from the left row and any other column from the right row. The frames merged here share
  no column but the key of an \<open>on=\<close> merge, so no column is renamed with a suffix. A
  column keeps its dtype, also when the merged frame has no rows.

  \<open>pd.merge\<close> raises \<open>ValueError\<close> when the two frames have rows and one key column is
  numeric and the other is of strings; with a frame that has no rows it does not raise.
\<close>

definition merge_rows :: "string list \<Rightarrow> row \<Rightarrow> row \<Rightarrow> row" where
  "merge_rows lcols l r = (\<lambda>c. if c \<in> set lcols then l c else r c)"

definition merged_columns :: "frame \<Rightarrow> frame \<Rightarrow> string list" where
  "merged_columns left right =
     columns left @ filter (\<lambda>c. c \<notin> set (columns left)) (columns right)"

definition merged_numeric :: "frame \<Rightarrow> frame \<Rightarrow> string list" where
  "merged_numeric left right =
     numeric left @ filter (\<lambda>c. c \<notin> set (columns left)) (numeric right)"

definition merge_keys_error :: "frame \<Rightarrow> frame \<Rightarrow> string \<Rightarrow> string \<Rightarrow> bool" where
  "merge_keys_error left right left_on right_on =
     (rows left \<noteq> [] \<and> rows right \<noteq> []
      \<and> (left_on \<in> set (numeric left)) \<noteq> (right_on \<in> set (numeric right)))"

definition inner_rows :: "frame \<Rightarrow> frame \<Rightarrow> string \<Rightarrow> string \<Rightarrow> row list" where
  "inner_rows left right left_on right_on =
     concat (map (\<lambda>l. map (merge_rows (columns left) l)
                         (filter (\<lambda>r. r right_on = l left_on) (rows right)))
                 (rows left))"

definition left_rows :: "frame \<Rightarrow> frame \<Rightarrow> string \<Rightarrow> row list" where
  "left_rows left right on =
     concat (map (\<lambda>l. case filter (\<lambda>r. r on = l on) (rows right) of
                         [] \<Rightarrow> [merge_rows (columns left) l na_row]
                       | ms \<Rightarrow> map (merge_rows (columns left) l) ms)
                 (rows left))"

definition merge_inner :: "frame \<Rightarrow> frame \<Rightarrow> string \<Rightarrow> string \<Rightarrow> py_error + frame" where
  "merge_inner left right left_on right_on =
     (if merge_keys_error left right left_on right_on then Inl ValueError
      else Inr \<lparr>columns = merged_columns left right,
                numeric = merged_numeric left right,
                rows = inner_rows left right left_on right_on\<rparr>)"

definition merge_left :: "frame \<Rightarrow> frame \<Rightarrow> string \<Rightarrow> py_error + frame" where
  "merge_left left right on =
     (if merge_keys_error left right on on then Inl ValueError
      else Inr \<lparr>columns = merged_columns left right,
                numeric = merged_numeric left right,
                rows = left_rows left right on\<rparr>)"

text \<open>
  \<open>series.apply(f)\<close> for a function that may raise: the first exception leaves the
  \<open>apply\<close>.
\<close>

fun series_apply :: "('a \<Rightarrow> py_error + 'b) \<Rightarrow> 'a list \<Rightarrow> py_error + 'b list" where
  "series_apply f [] = Inr []"
| "series_apply f (x # xs) =
     (case f x of
        Inl e \<Rightarrow> Inl e
      | Inr y \<Rightarrow> (case series_apply f xs of Inl e \<Rightarrow> Inl e | Inr ys \<Rightarrow> Inr (y # ys)))"

text \<open>
  \<open>df[c]\<close> raises \<open>KeyError\<close> for a column the frame does not have: the first of the
  listed columns that is not there. Between the reads of \<open>value_amount\<close> and
  \<open>tender_procurementMethod\<close> the feature functions only apply \<open>clean_currency\<close>, which
  does not raise, so the check for these two columns is made once.
\<close>

definition missing_column :: "frame \<Rightarrow> string list \<Rightarrow> py_error option" where
  "missing_column df cols =
     (case filter (\<lambda>c. c \<notin> set (columns df)) cols of
        [] \<Rightarrow> None
      | c # cs \<Rightarrow> Some (KeyError c))"

text \<open>
  \<open>df.isnull().sum(axis=1)\<close>, for one row: the number of columns of the frame that are
  missing in it.
\<close>

definition isnull_sum :: "string list \<Rightarrow> row \<Rightarrow> nat" where
  "isnull_sum cols r = length (filter (\<lambda>c. r c = NA) cols)"

section \<open>Feature derivation, first version\<close>

definition MAIN_FILE :: string where
  "MAIN_FILE = ''data/raw/main.csv''"

definition AWARDS_FILE :: string where
  "AWARDS_FILE = ''data/raw/awards.csv''"

definition PROCESSED_DATA_PATH :: string where
  "PROCESSED_DATA_PATH = ''data/processed/training_data.csv''"

text \<open>
  \<open>load_and_merge\<close>: both handlers of the \<open>try\<close> return \<open>None\<close>, for the exceptions of
  \<open>read_csv\<close> and for the exception of \<open>pd.merge\<close>.
\<close>

definition load_and_merge :: "files \<Rightarrow> frame option" where
  "load_and_merge fs =
     (case read_csv fs MAIN_FILE [''_link'', ''tender_procurementMethod''] of
        Inl e \<Rightarrow> None
      | Inr main_df \<Rightarrow>
     (case read_csv fs AWARDS_FILE [''_link_main'', ''value_amount''] of
        Inl e \<Rightarrow> None
      | Inr awards_df \<Rightarrow>
          (let awards_df = drop_duplicates ''_link_main'' awards_df
           in case merge_inner main_df awards_df ''_link'' ''_link_main'' of
                Inl e \<Rightarrow> None
              | Inr merged_df \<Rightarrow> Some merged_df)))"

text \<open>
  \<open>lambda x: 1 if str(x).lower() == 'direct' else 0\<close>. \<open>str\<close> of a missing value is
  \<open>'nan'\<close> and \<open>str\<close> of a number is a numeral, so only a string can give 1.
\<close>

definition is_direct :: "cell \<Rightarrow> rat" where
  "is_direct x = (case x of Str s \<Rightarrow> (if str_lower s = ''direct'' then 1 else 0) | _ \<Rightarrow> 0)"

text \<open>
  \<open>lambda x: 1 if x > 1000 and x % 1000 == 0 else 0\<close>, with Python's \<open>%\<close> on a positive
  modulus.
\<close>

definition py_mod :: "rat \<Rightarrow> rat \<Rightarrow> rat" where
  "py_mod x m = x - m * of_int \<lfloor>x / m\<rfloor>"

definition is_round :: "rat \<Rightarrow> rat" where
  "is_round x = (if x > 1000 \<and> py_mod x 1000 = 0 then 1 else 0)"

text \<open>
  The score is computed from the columns of the model frame:
  \<^verbatim>\<open>
  risk_score = (model_df['is_direct_procurement'] * 2) + \
               (model_df['is_round_amount'] * 1.5) + \
               (model_df['missing_data_count'] >= 1).astype(int)
  model_df['risk_label'] = (risk_score >= 1.5).astype(int)
  \<close>
\<close>

definition risk_score_v1 :: "row \<Rightarrow> rat" where
  "risk_score_v1 m =
     cell_num (m ''is_direct_procurement'') * 2
     + cell_num (m ''is_round_amount'') * (3 / 2)
     + (if cell_num (m ''missing_data_count'') \<ge> 1 then 1 else 0)"

definition features_v1 :: "string list \<Rightarrow> rat \<times> row \<Rightarrow> row" where
  "features_v1 cols = (\<lambda>(amount, r).
     (let m = na_row(''amount'' := Num amount);
          m = m(''is_direct_procurement'' := Num (is_direct (r ''tender_procurementMethod'')));
          m = m(''is_round_amount'' := Num (is_round (cell_num (m ''amount''))));
          m = m(''missing_data_count'' := Num (of_nat (isnull_sum cols r)));
          m = m(''risk_label'' := Num (if risk_score_v1 m \<ge> 3 / 2 then 1 else 0))
      in m))"

definition final_features_v1 :: "string list" where
  "final_features_v1 =
     [''amount'', ''is_direct_procurement'', ''is_round_amount'', ''missing_data_count'',
      ''risk_label'']"

definition engineer_features :: "(string \<Rightarrow> py_error + rat) \<Rightarrow> frame \<Rightarrow> py_error + frame" where
  "engineer_features float_of df =
     (case missing_column df [''value_amount'', ''tender_procurementMethod''] of
        Some e \<Rightarrow> Inl e
      | None \<Rightarrow>
     (case series_apply (clean_currency float_of) (map (\<lambda>r. r ''value_amount'') (rows df)) of
        Inl e \<Rightarrow> Inl e
      | Inr amount \<Rightarrow>
          (let model_df =
                 \<lparr>columns = [''amount'', ''is_direct_procurement'', ''is_round_amount'',
                              ''missing_data_count'', ''risk_label''],
                  numeric = [''amount'', ''is_direct_procurement'', ''is_round_amount'',
                             ''missing_data_count'', ''risk_label''],
                  rows = map (features_v1 (columns df)) (zip amount (rows df))\<rparr>
           in Inr (select_columns final_features_v1 model_df))))"

text \<open>
  \<open>main\<close>: the only write is \<open>to_csv\<close>, the last effect of the run. \<open>Inl\<close> is an exception
  that leaves \<open>main\<close> before the write; \<open>Inr\<close> is the file system after a run that
  returned.
\<close>

definition main_v1 :: "(string \<Rightarrow> py_error + rat) \<Rightarrow> files \<Rightarrow> py_error + files" where
  "main_v1 float_of fs =
     (case load_and_merge fs of
        None \<Rightarrow> Inr fs
      | Some merged_df \<Rightarrow>
          (case engineer_features float_of merged_df of
             Inl e \<Rightarrow> Inl e
           | Inr model_df \<Rightarrow> Inr (fs(PROCESSED_DATA_PATH \<mapsto> model_df))))"

section \<open>Feature derivation, second and third version\<close>

definition CONTRACTS_FILE :: string where
  "CONTRACTS_FILE = ''data/raw/contracts.csv''"

definition SUPPLIERS_FILE :: string where
  "SUPPLIERS_FILE = ''data/raw/awards_suppliers.csv''"

definition PROCESSED_DATA_PATH_V2 :: string where
  "PROCESSED_DATA_PATH_V2 = ''data/processed/training_data_v2.csv''"

definition PROCESSED_DATA_PATH_V3 :: string where
  "PROCESSED_DATA_PATH_V3 = ''data/processed/training_data_v3.csv''"

text \<open>
  \<open>suppliers_df['name'] = suppliers_df['name'].str.strip().str.upper()\<close>. Python's
  \<open>str.strip\<close> and \<open>str.upper\<close> work on all of Unicode; they are taken as the
  parameters \<open>strip\<close> and \<open>upper\<close>. The \<open>.str\<close> accessor raises \<open>AttributeError\<close> on a
  numeric column. An element that is not a string gives a missing value. The column
  assigned is a column of dtype \<open>object\<close>.
\<close>

definition strip_upper_cell :: "(string \<Rightarrow> string) \<Rightarrow> (string \<Rightarrow> string) \<Rightarrow> cell \<Rightarrow> cell" where
  "strip_upper_cell strip upper x = (case x of Str s \<Rightarrow> Str (upper (strip s)) | _ \<Rightarrow> NA)"

definition str_strip_upper ::
    "(string \<Rightarrow> string) \<Rightarrow> (string \<Rightarrow> string) \<Rightarrow> frame \<Rightarrow> string \<Rightarrow> py_error + cell list" where
  "str_strip_upper strip upper df c =
     (if c \<in> set (numeric df) then Inl AttributeError
      else Inr (map (strip_upper_cell strip upper) (map (\<lambda>r. r c) (rows df))))"

text \<open>\<open>df[c] = values\<close> for a column the frame has already, with values of dtype \<open>object\<close>.\<close>

definition set_column :: "string \<Rightarrow> cell list \<Rightarrow> frame \<Rightarrow> frame" where
  "set_column c vals df =
     df\<lparr>numeric := filter (\<lambda>d. d \<noteq> c) (numeric df),
        rows := map (\<lambda>(r, v). r(c := v)) (zip (rows df) vals)\<rparr>"

text \<open>\<open>df.rename(columns={old: new})\<close>.\<close>

definition rename_column :: "string \<Rightarrow> string \<Rightarrow> frame \<Rightarrow> frame" where
  "rename_column old new df =
     \<lparr>columns = map (\<lambda>c. if c = old then new else c) (columns df),
      numeric = map (\<lambda>c. if c = old then new else c) (numeric df),
      rows = map (\<lambda>r. (r(new := r old))(old := NA)) (rows df)\<rparr>"

text \<open>
  \<open>load_and_merge_v2\<close> and \<open>load_and_merge_v3\<close>: every exception of the load, of the
  \<open>.str\<close> accessor and of the three merges is caught, and the function returns \<open>None\<close>.
\<close>

definition load_and_merge_v2 ::
    "(string \<Rightarrow> string) \<Rightarrow> (string \<Rightarrow> string) \<Rightarrow> files \<Rightarrow> frame option" where
  "load_and_merge_v2 strip upper fs =
     (case read_csv fs MAIN_FILE [''_link'', ''tender_procurementMethod''] of
        Inl e \<Rightarrow> None
      | Inr main_df \<Rightarrow>
     (case read_csv fs AWARDS_FILE [''_link_main'', ''value_amount''] of
        Inl e \<Rightarrow> None
      | Inr awards_df \<Rightarrow>
     (case read_csv fs CONTRACTS_FILE [''_link_main'', ''dateSigned'', ''period_startDate''] of
        Inl e \<Rightarrow> None
      | Inr contracts_df \<Rightarrow>
     (case read_csv fs SUPPLIERS_FILE [''_link_main'', ''name''] of
        Inl e \<Rightarrow> None
      | Inr suppliers_df \<Rightarrow>
     (case str_strip_upper strip upper suppliers_df ''name'' of
        Inl e \<Rightarrow> None
      | Inr names \<Rightarrow>
          (let awards_df = drop_duplicates ''_link_main'' awards_df;
               contracts_df = drop_duplicates ''_link_main'' contracts_df;
               suppliers_df = set_column ''name'' names suppliers_df;
               suppliers_df = drop_duplicates ''_link_main'' suppliers_df
           in case merge_inner main_df awards_df ''_link'' ''_link_main'' of
                Inl e \<Rightarrow> None
              | Inr merged_df \<Rightarrow>
             (case merge_left merged_df contracts_df ''_link_main'' of
                Inl e \<Rightarrow> None
              | Inr merged_df \<Rightarrow>
             (case merge_left merged_df suppliers_df ''_link_main'' of
                Inl e \<Rightarrow> None
              | Inr merged_df \<Rightarrow> Some merged_df))))))))"

definition load_and_merge_v3 :: "files \<Rightarrow> frame option" where
  "load_and_merge_v3 fs =
     (case read_csv fs MAIN_FILE [''_link'', ''tender_procurementMethod''] of
        Inl e \<Rightarrow> None
      | Inr main_df \<Rightarrow>
     (case read_csv fs AWARDS_FILE [''_link_main'', ''value_amount''] of
        Inl e \<Rightarrow> None
      | Inr awards_df \<Rightarrow>
     (case read_csv fs CONTRACTS_FILE [''_link_main'', ''dateSigned'', ''period_startDate''] of
        Inl e \<Rightarrow> None
      | Inr contracts_df \<Rightarrow>
     (case read_csv fs SUPPLIERS_FILE [''_link_main'', ''id'', ''name''] of
        Inl e \<Rightarrow> None
      | Inr suppliers_df \<Rightarrow>
          (let awards_df = drop_duplicates ''_link_main'' awards_df;
               contracts_df = drop_duplicates ''_link_main'' contracts_df;
               suppliers_df = rename_column ''id'' ''supplier_id'' suppliers_df;
               suppliers_df = drop_duplicates ''_link_main'' suppliers_df
           in case merge_inner main_df awards_df ''_link'' ''_link_main'' of
                Inl e \<Rightarrow> None
              | Inr merged_df \<Rightarrow>
             (case merge_left merged_df contracts_df ''_link_main'' of
                Inl e \<Rightarrow> None
              | Inr merged_df \<Rightarrow>
             (case merge_left merged_df suppliers_df ''_link_main'' of
                Inl e \<Rightarrow> None
              | Inr merged_df \<Rightarrow> Some merged_df)))))))"

text \<open>
  \<open>pd.to_datetime(series, errors='coerce')\<close> is a library function, taken as the
  parameter \<open>to_datetime\<close>. For a column it raises (as it does for a column of dates with
  different UTC offsets) or gives the parsed column: whether the column is time-zone
  aware, and for an element of the column the point in time it is parsed to, or \<open>None\<close>
  for \<open>NaT\<close>, the value of an element that does not parse.
\<close>

record datetimes =
  tz_aware :: bool
  stamp :: "cell \<Rightarrow> int option"

type_synonym datetime_parser = "cell list \<Rightarrow> py_error + datetimes"

text \<open>
  \<open>a < b\<close> on two parsed columns raises \<open>TypeError\<close> when one is time-zone aware and the
  other is not. Otherwise it compares element by element, and a comparison with \<open>NaT\<close> is
  false.
\<close>

definition datetimes_less ::
    "datetimes \<Rightarrow> datetimes \<Rightarrow> py_error + (cell \<Rightarrow> cell \<Rightarrow> bool)" where
  "datetimes_less a b =
     (if tz_aware a \<noteq> tz_aware b then Inl TypeError
      else Inr (\<lambda>x y. case (stamp a x, stamp b y) of
                        (Some s, Some t) \<Rightarrow> s < t
                      | _ \<Rightarrow> False))"

text \<open>
  \<^verbatim>\<open>
  date_signed = pd.to_datetime(df['dateSigned'], errors='coerce')
  start_date = pd.to_datetime(df['period_startDate'], errors='coerce')
  model_df['suspicious_timing'] = (start_date < date_signed).astype(int)
  \<close>
  The result is the flag of a row, or the first exception of the three lines.
\<close>

definition suspicious_timing :: "datetime_parser \<Rightarrow> frame \<Rightarrow> py_error + (row \<Rightarrow> rat)" where
  "suspicious_timing to_datetime df =
     (case missing_column df [''dateSigned''] of
        Some e \<Rightarrow> Inl e
      | None \<Rightarrow>
     (case to_datetime (map (\<lambda>r. r ''dateSigned'') (rows df)) of
        Inl e \<Rightarrow> Inl e
      | Inr date_signed \<Rightarrow>
     (case missing_column df [''period_startDate''] of
        Some e \<Rightarrow> Inl e
      | None \<Rightarrow>
     (case to_datetime (map (\<lambda>r. r ''period_startDate'') (rows df)) of
        Inl e \<Rightarrow> Inl e
      | Inr start_date \<Rightarrow>
     (case datetimes_less start_date date_signed of
        Inl e \<Rightarrow> Inl e
      | Inr earlier \<Rightarrow>
          Inr (\<lambda>r. if earlier (r ''period_startDate'') (r ''dateSigned'') then 1 else 0))))))"

text \<open>
  \<open>series.value_counts()\<close>: each value that is not missing, with the number of its
  occurrences. \<open>series.map(counts)\<close> looks each element up, with a missing value where it
  is not found, and \<open>.fillna(1).astype(int)\<close> makes that 1.
  \<^verbatim>\<open>
  supplier_counts = df['name'].value_counts()
  model_df['supplier_award_count'] = df['name'].map(supplier_counts).fillna(1).astype(int)
  \<close>
  The third version reads \<open>supplier_id\<close> for \<open>name\<close>; the column is the parameter
  \<open>supplier_key\<close>.
\<close>

definition value_counts :: "cell list \<Rightarrow> (cell \<times> nat) list" where
  "value_counts xs =
     map (\<lambda>v. (v, length (filter (\<lambda>x. x = v) xs))) (remdups (filter (\<lambda>x. x \<noteq> NA) xs))"

definition supplier_award_count :: "string \<Rightarrow> frame \<Rightarrow> row \<Rightarrow> nat" where
  "supplier_award_count supplier_key df r =
     (let supplier_counts = value_counts (map (\<lambda>r. r supplier_key) (rows df))
      in case map_of supplier_counts (r supplier_key) of None \<Rightarrow> 1 | Some n \<Rightarrow> n)"

text \<open>
  \<^verbatim>\<open>
  risk_score = (model_df['is_direct_procurement'] * 1.5) + \
               (model_df['is_round_amount'] * 1.0) + \
               (model_df['suspicious_timing'] * 2.0) + \
               (model_df['new_supplier_direct_deal'] * 2.5)
  model_df['risk_label'] = (risk_score >= 2.0).astype(int)
  \<close>
\<close>

definition risk_score_v2 :: "row \<Rightarrow> rat" where
  "risk_score_v2 m =
     cell_num (m ''is_direct_procurement'') * (3 / 2)
     + cell_num (m ''is_round_amount'') * 1
     + cell_num (m ''suspicious_timing'') * 2
     + cell_num (m ''new_supplier_direct_deal'') * (5 / 2)"

text \<open>
  The feature columns of \<open>engineer_features_v2\<close> and \<open>engineer_features_v3\<close>, for one
  row, its cleaned amount and the flags of the date comparison. The two functions differ
  only in the column the suppliers are counted by.
\<close>

definition advanced_features :: "(row \<Rightarrow> rat) \<Rightarrow> string \<Rightarrow> frame \<Rightarrow> rat \<times> row \<Rightarrow> row" where
  "advanced_features timing supplier_key df = (\<lambda>(amount, r).
     (let m = na_row(''amount'' := Num amount);
          m = m(''is_direct_procurement'' := Num (is_direct (r ''tender_procurementMethod'')));
          m = m(''is_round_amount'' := Num (is_round (cell_num (m ''amount''))));
          m = m(''suspicious_timing'' := Num (timing r));
          m = m(''supplier_award_count'' := Num (of_nat (supplier_award_count supplier_key df r)));
          m = m(''new_supplier_direct_deal'' :=
                  Num (if cell_num (m ''supplier_award_count'') \<le> 3
                          \<and> cell_num (m ''is_direct_procurement'') = 1 then 1 else 0));
          m = m(''risk_label'' := Num (if risk_score_v2 m \<ge> 2 then 1 else 0))
      in m))"

definition final_features_v2 :: "string list" where
  "final_features_v2 =
     [''amount'', ''is_direct_procurement'', ''is_round_amount'', ''suspicious_timing'',
      ''supplier_award_count'', ''new_supplier_direct_deal'', ''risk_label'']"

text \<open>
  The statements of \<open>engineer_features_v2\<close> in their order: the two columns of the old
  features, the date lines, the supplier column. All columns of the model frame are
  numeric.
\<close>

definition engineer_features_v2 ::
    "(string \<Rightarrow> py_error + rat) \<Rightarrow> datetime_parser \<Rightarrow> frame \<Rightarrow> py_error + frame" where
  "engineer_features_v2 float_of to_datetime df =
     (case missing_column df [''value_amount'', ''tender_procurementMethod''] of
        Some e \<Rightarrow> Inl e
      | None \<Rightarrow>
     (case series_apply (clean_currency float_of) (map (\<lambda>r. r ''value_amount'') (rows df)) of
        Inl e \<Rightarrow> Inl e
      | Inr amount \<Rightarrow>
     (case suspicious_timing to_datetime df of
        Inl e \<Rightarrow> Inl e
      | Inr timing \<Rightarrow>
     (case missing_column df [''name''] of
        Some e \<Rightarrow> Inl e
      | None \<Rightarrow>
          (let model_df =
                 \<lparr>columns = [''amount'', ''is_direct_procurement'', ''is_round_amount'',
                              ''suspicious_timing'', ''supplier_award_count'',
                              ''new_supplier_direct_deal'', ''risk_label''],
                  numeric = [''amount'', ''is_direct_procurement'', ''is_round_amount'',
                             ''suspicious_timing'', ''supplier_award_count'',
                             ''new_supplier_direct_deal'', ''risk_label''],
                  rows = map (advanced_features timing ''name'' df) (zip amount (rows df))\<rparr>
           in Inr (select_columns final_features_v2 model_df))))))"

text \<open>
  The third version adds two columns after the selection:
  \<open>model_df['supplier_id'] = df['supplier_id']\<close> and \<open>model_df['supplier_name'] = df['name']\<close>.
\<close>

definition engineer_features_v3 ::
    "(string \<Rightarrow> py_error + rat) \<Rightarrow> datetime_parser \<Rightarrow> frame \<Rightarrow> py_error + frame" where
  "engineer_features_v3 float_of to_datetime df =
     (case missing_column df [''value_amount'', ''tender_procurementMethod''] of
        Some e \<Rightarrow> Inl e
      | None \<Rightarrow>
     (case series_apply (clean_currency float_of) (map (\<lambda>r. r ''value_amount'') (rows df)) of
        Inl e \<Rightarrow> Inl e
      | Inr amount \<Rightarrow>
     (case suspicious_timing to_datetime df of
        Inl e \<Rightarrow> Inl e
      | Inr timing \<Rightarrow>
     (case missing_column df [''supplier_id'', ''name''] of
        Some e \<Rightarrow> Inl e
      | None \<Rightarrow>
          (let model_df =
                 \<lparr>columns = [''amount'', ''is_direct_procurement'', ''is_round_amount'',
                              ''suspicious_timing'', ''supplier_award_count'',
                              ''new_supplier_direct_deal'', ''risk_label''],
                  numeric = [''amount'', ''is_direct_procurement'', ''is_round_amount'',
                             ''suspicious_timing'', ''supplier_award_count'',
                             ''new_supplier_direct_deal'', ''risk_label''],
                  rows = map (advanced_features timing ''supplier_id'' df)
                             (zip amount (rows df))\<rparr>;
               model_df = select_columns final_features_v2 model_df
           in Inr \<lparr>columns = columns model_df @ [''supplier_id'', ''supplier_name''],
                   numeric = numeric model_df
                             @ (if ''supplier_id'' \<in> set (numeric df) then [''supplier_id''] else [])
                             @ (if ''name'' \<in> set (numeric df) then [''supplier_name''] else []),
                   rows = map (\<lambda>(m, r). m(''supplier_id'' := r ''supplier_id'',
                                            ''supplier_name'' := r ''name''))
                              (zip (rows model_df) (rows df))\<rparr>)))))"

definition main_v2 ::
    "(string \<Rightarrow> string) \<Rightarrow> (string \<Rightarrow> string) \<Rightarrow> (string \<Rightarrow> py_error + rat) \<Rightarrow> datetime_parser
       \<Rightarrow> files \<Rightarrow> py_error + files" where
  "main_v2 strip upper float_of to_datetime fs =
     (case load_and_merge_v2 strip upper fs of
        None \<Rightarrow> Inr fs
      | Some merged_df \<Rightarrow>
          (case engineer_features_v2 float_of to_datetime merged_df of
             Inl e \<Rightarrow> Inl e
           | Inr model_df \<Rightarrow> Inr (fs(PROCESSED_DATA_PATH_V2 \<mapsto> model_df))))"

definition main_v3 ::
    "(string \<Rightarrow> py_error + rat) \<Rightarrow> datetime_parser \<Rightarrow> files \<Rightarrow> py_error + files" where
  "main_v3 float_of to_datetime fs =
     (case load_and_merge_v3 fs of
        None \<Rightarrow> Inr fs
      | Some merged_df \<Rightarrow>
          (case engineer_features_v3 float_of to_datetime merged_df of
             Inl e \<Rightarrow> Inl e
           | Inr model_df \<Rightarrow> Inr (fs(PROCESSED_DATA_PATH_V3 \<mapsto> model_df))))"

section \<open>Predicates of the statements\<close>

text \<open>
  A load-level failure of a source: there is no file at the path, or the file lacks one
  of the required columns.
\<close>

definition load_failure :: "files \<Rightarrow> string \<Rightarrow> string list \<Rightarrow> bool" where
  "load_failure fs path cols =
     (case fs path of
        None \<Rightarrow> True
      | Some t \<Rightarrow> list_ex (\<lambda>c. c \<notin> set (columns t)) cols)"

text \<open>
  The supplier file has rows and no string in its name column, so that the \<open>.str\<close>
  accessor raises.
\<close>

definition name_column_failure :: "files \<Rightarrow> bool" where
  "name_column_failure fs =
     (case fs SUPPLIERS_FILE of
        None \<Rightarrow> False
      | Some t \<Rightarrow> rows t \<noteq> [] \<and> \<not> list_ex (\<lambda>r. is_str (r ''name'')) (rows t))"

text \<open>
  The two date columns of a frame parse without an exception, and the parsed columns
  are both time-zone aware or both not: the date lines of the feature functions do not
  raise.
\<close>

definition dates_comparable :: "datetime_parser \<Rightarrow> frame \<Rightarrow> bool" where
  "dates_comparable to_datetime df =
     (case to_datetime (map (\<lambda>r. r ''dateSigned'') (rows df)) of
        Inl e \<Rightarrow> False
      | Inr date_signed \<Rightarrow>
          (case to_datetime (map (\<lambda>r. r ''period_startDate'') (rows df)) of
             Inl e \<Rightarrow> False
           | Inr start_date \<Rightarrow> tz_aware start_date = tz_aware date_signed))"

text \<open>
  The first row of a table with a given key, or the row of missing values when there is
  none: what a left join on a deduplicated table attaches.
\<close>

definition lookup_first :: "string \<Rightarrow> cell \<Rightarrow> row list \<Rightarrow> row" where
  "lookup_first key k rs = (case find (\<lambda>r. r key = k) rs of None \<Rightarrow> na_row | Some r \<Rightarrow> r)"

text \<open>
  The supplier identity of the second version, for the name of a supplier record: the
  name trimmed and in upper case, and no identity for a missing name.
\<close>

definition name_identity :: "(string \<Rightarrow> string) \<Rightarrow> (string \<Rightarrow> string) \<Rightarrow> cell \<Rightarrow> cell" where
  "name_identity strip upper name =
     (case name of NA \<Rightarrow> NA | Num v \<Rightarrow> NA | Str s \<Rightarrow> Str (upper (strip s)))"

text \<open>The columns of the table a run has written at a path, when it has written one.\<close>

definition written_columns :: "py_error + files \<Rightarrow> string \<Rightarrow> string list option" where
  "written_columns res path =
     (case res of Inl e \<Rightarrow> None | Inr fs' \<Rightarrow> map_option columns (fs' path))"

section \<open>A sample run\<close>

text \<open>
  Samples of \<open>str.strip\<close> and \<open>str.upper\<close> for the examples, on the ASCII white space
  and the ASCII letters: they agree with Python on ASCII strings.
\<close>

definition upper_char :: "char \<Rightarrow> char" where
  "upper_char c =
     (case map_of (zip ''abcdefghijklmnopqrstuvwxyz'' ''ABCDEFGHIJKLMNOPQRSTUVWXYZ'') c of
        Some u \<Rightarrow> u | None \<Rightarrow> c)"

definition upper_sample :: "string \<Rightarrow> string" where
  "upper_sample s = map upper_char s"

definition is_space :: "char \<Rightarrow> bool" where
  "is_space c = (c \<in> set [CHR '' '', CHR 0x09, CHR 0x0A, CHR 0x0B, CHR 0x0C, CHR 0x0D])"

definition strip_sample :: "string \<Rightarrow> string" where
  "strip_sample s = rev (dropWhile is_space (rev (dropWhile is_space s)))"

text \<open>
  A sample of \<open>to_datetime\<close> for the examples, on dates written \<open>YYYY-MM-DD\<close>, alone or
  followed by \<open>T00:00:00Z\<close> or by \<open>T00:00:00+03:00\<close>. The point in time is counted in
  hours, 24 times the number \<open>YYYYMMDD\<close> less the offset, which orders the dates of the
  examples as time does. A column whose dates all have no offset is not time-zone aware, a
  column whose dates all have the same offset is, and a column with different offsets
  raises. The sample agrees with pandas on the columns of the examples.
\<close>

definition sample_date :: "string \<Rightarrow> int option" where
  "sample_date s =
     (case s of
        [y1, y2, y3, y4, d1, m1, m2, d2, t1, t2] \<Rightarrow>
          (if d1 = CHR ''-'' \<and> d2 = CHR ''-''
           then map_option int (digits_val 0 [y1, y2, y3, y4, m1, m2, t1, t2])
           else None)
      | _ \<Rightarrow> None)"

definition sample_timestamp :: "cell \<Rightarrow> (int \<times> int option) option" where
  "sample_timestamp x =
     (case x of
        Str s \<Rightarrow>
          (case sample_date (take 10 s) of
             None \<Rightarrow> None
           | Some d \<Rightarrow>
               (if drop 10 s = [] then Some (24 * d, None)
                else if drop 10 s = ''T00:00:00Z'' then Some (24 * d, Some 0)
                else if drop 10 s = ''T00:00:00+03:00'' then Some (24 * d - 3, Some 3)
                else None))
      | _ \<Rightarrow> None)"

definition datetime_sample :: datetime_parser where
  "datetime_sample col =
     (case remdups (map snd (List.map_filter sample_timestamp col)) of
        [] \<Rightarrow> Inr \<lparr>tz_aware = False, stamp = map_option fst \<circ> sample_timestamp\<rparr>
      | [None] \<Rightarrow> Inr \<lparr>tz_aware = False, stamp = map_option fst \<circ> sample_timestamp\<rparr>
      | [Some z] \<Rightarrow> Inr \<lparr>tz_aware = True, stamp = map_option fst \<circ> sample_timestamp\<rparr>
      | _ \<Rightarrow> Inl ValueError)"

definition mk_row :: "(string \<times> cell) list \<Rightarrow> row" where
  "mk_row kvs = (\<lambda>c. case map_of kvs c of Some v \<Rightarrow> v | None \<Rightarrow> NA)"

text \<open>
  Four tenders, of which \<open>c4\<close> has no award; tender \<open>c1\<close> has two award records; tender
  \<open>c3\<close> has no procurement method, an amount that does not parse, and neither a contract
  nor a supplier record; the signature date of \<open>c2\<close> does not parse. The dtypes stored with
  a file are not read, and are left empty.
\<close>

definition example_main :: frame where
  "example_main =
     \<lparr>columns = [''_link'', ''tender_procurementMethod'', ''tender_title''],
      numeric = [],
      rows = [mk_row [(''_link'', Str ''c1''), (''tender_procurementMethod'', Str ''Direct''),
                      (''tender_title'', Str ''Road'')],
              mk_row [(''_link'', Str ''c2''), (''tender_procurementMethod'', Str ''Open'')],
              mk_row [(''_link'', Str ''c3'')],
              mk_row [(''_link'', Str ''c4''), (''tender_procurementMethod'', Str ''direct'')]]\<rparr>"

definition example_awards :: frame where
  "example_awards =
     \<lparr>columns = [''_link_main'', ''value_amount''],
      numeric = [],
      rows = [mk_row [(''_link_main'', Str ''c1''), (''value_amount'', Str ''KES 5,000'')],
              mk_row [(''_link_main'', Str ''c1''), (''value_amount'', Str ''7'')],
              mk_row [(''_link_main'', Str ''c2''), (''value_amount'', Str ''1500'')],
              mk_row [(''_link_main'', Str ''c3''), (''value_amount'', Str ''TBD'')]]\<rparr>"

definition example_contracts :: frame where
  "example_contracts =
     \<lparr>columns = [''_link_main'', ''dateSigned'', ''period_startDate''],
      numeric = [],
      rows = [mk_row [(''_link_main'', Str ''c1''), (''dateSigned'', Str ''2020-02-01''),
                      (''period_startDate'', Str ''2020-01-01'')],
              mk_row [(''_link_main'', Str ''c2''), (''dateSigned'', Str ''soon''),
                      (''period_startDate'', Str ''2020-01-01'')]]\<rparr>"

definition example_suppliers :: frame where
  "example_suppliers =
     \<lparr>columns = [''_link_main'', ''id'', ''name''],
      numeric = [],
      rows = [mk_row [(''_link_main'', Str ''c1''), (''id'', Str ''S1''),
                      (''name'', Str '' acme ltd'')],
              mk_row [(''_link_main'', Str ''c2''), (''id'', Str ''S1''),
                      (''name'', Str ''ACME LTD '')],
              mk_row [(''_link_main'', Str ''c2''), (''id'', Str ''S9''),
                      (''name'', Str ''Other'')]]\<rparr>"

definition example_files :: files where
  "example_files =
     [MAIN_FILE \<mapsto> example_main, AWARDS_FILE \<mapsto> example_awards,
      CONTRACTS_FILE \<mapsto> example_contracts, SUPPLIERS_FILE \<mapsto> example_suppliers]"

text \<open>
  The merged frames the three loaders give on the sample files: the second version has
  the supplier names stripped and in upper case, the third has the supplier ids and the
  names as they are in the file. All columns are columns of strings.
\<close>

definition example_merged_v1 :: frame where
  "example_merged_v1 =
     \<lparr>columns = [''_link'', ''tender_procurementMethod'', ''_link_main'', ''value_amount''],
      numeric = [],
      rows = [mk_row [(''_link'', Str ''c1''), (''tender_procurementMethod'', Str ''Direct''),
                      (''_link_main'', Str ''c1''), (''value_amount'', Str ''KES 5,000'')],
              mk_row [(''_link'', Str ''c2''), (''tender_procurementMethod'', Str ''Open''),
                      (''_link_main'', Str ''c2''), (''value_amount'', Str ''1500'')],
              mk_row [(''_link'', Str ''c3''), (''_link_main'', Str ''c3''),
                      (''value_amount'', Str ''TBD'')]]\<rparr>"

definition example_merged_v2 :: frame where
  "example_merged_v2 =
     \<lparr>columns = [''_link'', ''tender_procurementMethod'', ''_link_main'', ''value_amount'',
                  ''dateSigned'', ''period_startDate'', ''name''],
      numeric = [],
      rows = [mk_row [(''_link'', Str ''c1''), (''tender_procurementMethod'', Str ''Direct''),
                      (''_link_main'', Str ''c1''), (''value_amount'', Str ''KES 5,000''),
                      (''dateSigned'', Str ''2020-02-01''),
                      (''period_startDate'', Str ''2020-01-01''), (''name'', Str ''ACME LTD'')],
              mk_row [(''_link'', Str ''c2''), (''tender_procurementMethod'', Str ''Open''),
                      (''_link_main'', Str ''c2''), (''value_amount'', Str ''1500''),
                      (''dateSigned'', Str ''soon''),
                      (''period_startDate'', Str ''2020-01-01''), (''name'', Str ''ACME LTD'')],
              mk_row [(''_link'', Str ''c3''), (''_link_main'', Str ''c3''),
                      (''value_amount'', Str ''TBD'')]]\<rparr>"

definition example_merged_v3 :: frame where
  "example_merged_v3 =
     \<lparr>columns = [''_link'', ''tender_procurementMethod'', ''_link_main'', ''value_amount'',
                  ''dateSigned'', ''period_startDate'', ''supplier_id'', ''name''],
      numeric = [],
      rows = [mk_row [(''_link'', Str ''c1''), (''tender_procurementMethod'', Str ''Direct''),
                      (''_link_main'', Str ''c1''), (''value_amount'', Str ''KES 5,000''),
                      (''dateSigned'', Str ''2020-02-01''),
                      (''period_startDate'', Str ''2020-01-01''),
                      (''supplier_id'', Str ''S1''), (''name'', Str '' acme ltd'')],
              mk_row [(''_link'', Str ''c2''), (''tender_procurementMethod'', Str ''Open''),
                      (''_link_main'', Str ''c2''), (''value_amount'', Str ''1500''),
                      (''dateSigned'', Str ''soon''),
                      (''period_startDate'', Str ''2020-01-01''),
                      (''supplier_id'', Str ''S1''), (''name'', Str ''ACME LTD '')],
              mk_row [(''_link'', Str ''c3''), (''_link_main'', Str ''c3''),
                      (''value_amount'', Str ''TBD'')]]\<rparr>"

text \<open>
  Sample files with a tender that has no link key, and an award, a contract record and a
  supplier record that have none.
\<close>

definition example_files_nokey :: files where
  "example_files_nokey =
     [MAIN_FILE \<mapsto>
        \<lparr>columns = [''_link'', ''tender_procurementMethod''], numeric = [],
         rows = [mk_row [(''tender_procurementMethod'', Str ''Direct'')],
                 mk_row [(''_link'', Str ''c1''), (''tender_procurementMethod'', Str ''Open'')]]\<rparr>,
      AWARDS_FILE \<mapsto>
        \<lparr>columns = [''_link_main'', ''value_amount''], numeric = [],
         rows = [mk_row [(''value_amount'', Num 9000)],
                 mk_row [(''_link_main'', Str ''c1''), (''value_amount'', Num 1500)]]\<rparr>,
      CONTRACTS_FILE \<mapsto>
        \<lparr>columns = [''_link_main'', ''dateSigned'', ''period_startDate''], numeric = [],
         rows = [mk_row [(''dateSigned'', Str ''2020-02-01''),
                         (''period_startDate'', Str ''2020-01-01'')],
                 mk_row [(''_link_main'', Str ''c9''), (''dateSigned'', Str ''2020-05-01''),
                         (''period_startDate'', Str ''2020-06-01'')]]\<rparr>,
      SUPPLIERS_FILE \<mapsto>
        \<lparr>columns = [''_link_main'', ''id'', ''name''], numeric = [],
         rows = [mk_row [(''id'', Str ''S7''), (''name'', Str ''Ghost Ltd'')],
                 mk_row [(''_link_main'', Str ''c9''), (''id'', Str ''S8''),
                         (''name'', Str ''Nine Ltd'')]]\<rparr>]"

text \<open>
  A merged frame of one contract with both dates valid and the start before the
  signature, the signature date with the UTC mark and the start date without.
\<close>

definition example_merged_tz :: frame where
  "example_merged_tz =
     \<lparr>columns = [''_link'', ''tender_procurementMethod'', ''_link_main'', ''value_amount'',
                  ''dateSigned'', ''period_startDate'', ''supplier_id'', ''name''],
      numeric = [''value_amount''],
      rows = [mk_row [(''_link'', Str ''c1''), (''tender_procurementMethod'', Str ''Direct''),
                      (''_link_main'', Str ''c1''), (''value_amount'', Num 5000),
                      (''dateSigned'', Str ''2020-02-01T00:00:00Z''),
                      (''period_startDate'', Str ''2020-01-01''),
                      (''supplier_id'', Str ''S1''), (''name'', Str ''ACME LTD'')]]\<rparr>"

text \<open>
  Contract files for the sample run: one in which the signature date of \<open>c2\<close> has another
  UTC offset than that of \<open>c1\<close>, and one in which the signature dates have the UTC mark
  and the start dates have none.
\<close>

definition example_contracts_offsets :: frame where
  "example_contracts_offsets =
     \<lparr>columns = [''_link_main'', ''dateSigned'', ''period_startDate''],
      numeric = [],
      rows = [mk_row [(''_link_main'', Str ''c1''), (''dateSigned'', Str ''2020-02-01T00:00:00Z''),
                      (''period_startDate'', Str ''2020-01-01T00:00:00Z'')],
              mk_row [(''_link_main'', Str ''c2''),
                      (''dateSigned'', Str ''2020-03-01T00:00:00+03:00''),
                      (''period_startDate'', Str ''2020-01-01T00:00:00Z'')]]\<rparr>"

definition example_contracts_tz :: frame where
  "example_contracts_tz =
     \<lparr>columns = [''_link_main'', ''dateSigned'', ''period_startDate''],
      numeric = [],
      rows = [mk_row [(''_link_main'', Str ''c1''), (''dateSigned'', Str ''2020-02-01T00:00:00Z''),
                      (''period_startDate'', Str ''2020-01-01'')],
              mk_row [(''_link_main'', Str ''c2''), (''dateSigned'', Str ''2020-03-01T00:00:00Z''),
                      (''period_startDate'', Str ''2020-01-01'')]]\<rparr>"

section \<open>Properties of the value normalizer\<close>

text \<open>
  Claim C3, as the code has it. \<open>clean_currency\<close> returns for every input and every
  behaviour of \<open>float\<close>: a missing value gives 0, a number is passed through unchanged, a
  string is parsed after \<open>KES\<close>, commas and spaces are removed, and a string that does not
  parse gives 0. The result is not negative when the number passed in, or the number the
  string parses to, is not negative.
\<close>

theorem clean_currency_total:
  "(\<exists>v. clean_currency float_of x = Inr v)
   \<and> clean_currency float_of NA = Inr 0
   \<and> clean_currency float_of (Num n) = Inr n
   \<and> clean_currency float_of (Str s) =
       Inr (case float_of (str_remove '' '' (str_remove '','' (str_remove ''KES'' s))) of
              Inr v \<Rightarrow> v | Inl e \<Rightarrow> 0)
   \<and> ((case x of
          NA \<Rightarrow> True
        | Num n \<Rightarrow> 0 \<le> n
        | Str s \<Rightarrow> (\<forall>v. float_of (str_remove '' '' (str_remove '','' (str_remove ''KES'' s))) = Inr v
                          \<longrightarrow> 0 \<le> v))
       \<longrightarrow> (\<exists>v. clean_currency float_of x = Inr v \<and> 0 \<le> v))"
  by (auto simp: clean_currency_def split: cell.splits sum.splits)

theorem clean_currency_total_witness:
  "clean_currency float_sample (Str ''KES 1,000,000'') = Inr 1000000
   \<and> clean_currency float_sample (Str ''n/a'') = Inr 0
   \<and> (\<exists>v. clean_currency float_sample (Str ''KES 1,000,000'') = Inr v \<and> 0 \<le> v)"
proof -
  have p: "float_sample (str_remove '' '' (str_remove '','' (str_remove ''KES'' ''KES 1,000,000'')))
             = Inr 1000000"
    by (simp add: float_sample_def digit_val_def)
  have q: "float_sample (str_remove '' '' (str_remove '','' (str_remove ''KES'' ''n/a'')))
             = Inl ValueError"
    by (simp add: float_sample_def digit_val_def)
  from clean_currency_total [of float_sample "Str ''KES 1,000,000''" 0 "''KES 1,000,000''"]
       clean_currency_total [of float_sample "Str ''n/a''" 0 "''n/a''"] p q
  show ?thesis by simp
qed

text \<open>
  The result can be negative: a negative number is passed through, and a string with a
  minus sign parses to a negative number.
\<close>

theorem clean_currency_negative_counterexample:
  "clean_currency float_sample (Num (- 5)) = Inr (- 5) \<and> \<not> (0::rat) \<le> - 5
   \<and> clean_currency float_sample (Str ''KES -5,000'') = Inr (- 5000) \<and> \<not> (0::rat) \<le> - 5000"
  by (simp add: clean_currency_def float_sample_def digit_val_def)

section \<open>Properties of the deduplication\<close>

lemma drop_dup_rows_keys:
  "set (map (\<lambda>r. r key) (drop_dup_rows key seen rs)) = set (map (\<lambda>r. r key) rs) - set seen"
  by (induction rs arbitrary: seen) auto

lemma drop_dup_rows_distinct: "distinct (map (\<lambda>r. r key) (drop_dup_rows key seen rs))"
  by (induction rs arbitrary: seen) (auto simp: drop_dup_rows_keys [simplified])


lemma drop_dup_rows_find:
  "find (\<lambda>r. r key = v) (drop_dup_rows key seen rs)
     = (if v \<in> set seen then None else find (\<lambda>r. r key = v) rs)"
  by (induction rs arbitrary: seen) auto




section \<open>Properties of the feature derivation\<close>

subsection \<open>The feature functions return, and what they return\<close>

lemma clean_currency_Inr: "clean_currency fo x = Inr (projr (clean_currency fo x))"
  by (auto simp: clean_currency_def split: cell.splits sum.splits)

lemma series_apply_clean_currency:
  "series_apply (clean_currency fo) xs = Inr (map (\<lambda>x. projr (clean_currency fo x)) xs)"
proof (induction xs)
  case Nil
  show ?case by simp
next
  case (Cons x xs)
  obtain v where v: "clean_currency fo x = Inr v"
    using clean_currency_Inr by blast
  show ?case using Cons by (simp add: v)
qed

lemma zip_map_self: "zip (map f xs) xs = map (\<lambda>x. (f x, x)) xs"
  by (induction xs) auto

lemma missing_column_None: "missing_column df cols = None \<longleftrightarrow> set cols \<subseteq> set (columns df)"
proof -
  have "missing_column df cols = None \<longleftrightarrow> filter (\<lambda>c. c \<notin> set (columns df)) cols = []"
    by (simp add: missing_column_def split: list.splits)
  then show ?thesis by (auto simp: filter_empty_conv)
qed

lemma engineer_features_Inr:
  assumes "missing_column df [''value_amount'', ''tender_procurementMethod''] = None"
  shows "engineer_features fo df =
           Inr \<lparr>columns = final_features_v1, numeric = final_features_v1,
                rows = map (\<lambda>r. restrict_row final_features_v1
                              (features_v1 (columns df)
                                 (projr (clean_currency fo (r ''value_amount'')), r)))
                         (rows df)\<rparr>"
  using assms
  by (simp add: engineer_features_def series_apply_clean_currency select_columns_def
        zip_map_self comp_def final_features_v1_def)

text \<open>The date lines return exactly when the two date columns are comparable.\<close>

lemma suspicious_timing_Inr:
  assumes "missing_column df [''dateSigned'', ''period_startDate''] = None"
    and "to_datetime (map (\<lambda>r. r ''dateSigned'') (rows df)) = Inr date_signed"
    and "to_datetime (map (\<lambda>r. r ''period_startDate'') (rows df)) = Inr start_date"
    and "tz_aware start_date = tz_aware date_signed"
  shows "suspicious_timing to_datetime df =
           Inr (\<lambda>r. if (\<exists>s d. stamp start_date (r ''period_startDate'') = Some s
                           \<and> stamp date_signed (r ''dateSigned'') = Some d \<and> s < d)
                    then 1 else 0)"
proof -
  have c: "missing_column df [''dateSigned''] = None"
          "missing_column df [''period_startDate''] = None"
    using assms(1) by (simp_all add: missing_column_None)
  have "(case (stamp start_date x, stamp date_signed y) of
           (Some s, Some t) \<Rightarrow> s < t | _ \<Rightarrow> False)
        = (\<exists>s d. stamp start_date x = Some s \<and> stamp date_signed y = Some d \<and> s < d)" for x y
    by (auto split: option.splits)
  then show ?thesis
    by (simp add: suspicious_timing_def c assms(2,3,4) datetimes_less_def)
qed

lemma suspicious_timing_comparable:
  assumes "missing_column df [''dateSigned'', ''period_startDate''] = None"
  shows "(\<exists>timing. suspicious_timing to_datetime df = Inr timing)
           \<longleftrightarrow> dates_comparable to_datetime df"
proof -
  have c: "missing_column df [''dateSigned''] = None"
          "missing_column df [''period_startDate''] = None"
    using assms by (simp_all add: missing_column_None)
  show ?thesis
    by (auto simp: suspicious_timing_def dates_comparable_def c datetimes_less_def
          split: sum.splits if_splits)
qed

lemma suspicious_timing_raises:
  "\<not> dates_comparable to_datetime df \<Longrightarrow> \<exists>e. suspicious_timing to_datetime df = Inl e"
  by (auto simp: suspicious_timing_def dates_comparable_def datetimes_less_def
        split: sum.splits if_splits option.splits)

lemma suspicious_timing_cases:
  "suspicious_timing to_datetime df = Inr timing \<Longrightarrow> timing r = 0 \<or> timing r = 1"
  by (auto simp: suspicious_timing_def split: sum.splits option.splits)

lemma engineer_features_v2_Inr:
  assumes "missing_column df [''value_amount'', ''tender_procurementMethod'', ''dateSigned'',
                              ''period_startDate'', ''name''] = None"
    and "suspicious_timing td df = Inr timing"
  shows "engineer_features_v2 fo td df =
           Inr \<lparr>columns = final_features_v2, numeric = final_features_v2,
                rows = map (\<lambda>r. restrict_row final_features_v2
                              (advanced_features timing ''name'' df
                                 (projr (clean_currency fo (r ''value_amount'')), r)))
                         (rows df)\<rparr>"
proof -
  have c: "missing_column df [''value_amount'', ''tender_procurementMethod''] = None"
          "missing_column df [''name''] = None"
    using assms(1) by (simp_all add: missing_column_None)
  show ?thesis
    by (simp add: engineer_features_v2_def c assms(2) series_apply_clean_currency
          select_columns_def zip_map_self comp_def final_features_v2_def)
qed

lemma engineer_features_v3_Inr:
  assumes "missing_column df [''value_amount'', ''tender_procurementMethod'', ''dateSigned'',
                              ''period_startDate'', ''supplier_id'', ''name''] = None"
    and "suspicious_timing td df = Inr timing"
  shows "\<exists>ns. engineer_features_v3 fo td df =
           Inr \<lparr>columns = final_features_v2 @ [''supplier_id'', ''supplier_name''],
                numeric = ns,
                rows = map (\<lambda>r. (restrict_row final_features_v2
                              (advanced_features timing ''supplier_id'' df
                                 (projr (clean_currency fo (r ''value_amount'')), r)))
                               (''supplier_id'' := r ''supplier_id'',
                                ''supplier_name'' := r ''name''))
                         (rows df)\<rparr>"
proof -
  have c: "missing_column df [''value_amount'', ''tender_procurementMethod''] = None"
          "missing_column df [''supplier_id'', ''name''] = None"
    using assms(1) by (simp_all add: missing_column_None)
  show ?thesis
    by (simp add: engineer_features_v3_def c assms(2) series_apply_clean_currency
          select_columns_def zip_map_self comp_def Let_def)
qed

lemma engineer_features_raises:
  assumes "\<not> dates_comparable td df"
    and "missing_column df [''value_amount'', ''tender_procurementMethod''] = None"
  shows "\<exists>e. engineer_features_v2 fo td df = Inl e"
    and "\<exists>e. engineer_features_v3 fo td df = Inl e"
  using suspicious_timing_raises [OF assms(1)] assms(2)
  by (auto simp: engineer_features_v2_def engineer_features_v3_def series_apply_clean_currency)

lemma features_v1_cells:
  "restrict_row final_features_v1 (features_v1 cols (a, r)) ''missing_data_count'' = Num (of_nat (isnull_sum cols r))"
  "restrict_row final_features_v1 (features_v1 cols (a, r)) ''is_direct_procurement'' = Num (is_direct (r ''tender_procurementMethod''))"
  "restrict_row final_features_v1 (features_v1 cols (a, r)) ''is_round_amount'' = Num (is_round a)"
  "restrict_row final_features_v1 (features_v1 cols (a, r)) ''amount'' = Num a"
  "restrict_row final_features_v1 (features_v1 cols (a, r)) ''risk_label'' =
     Num (if is_direct (r ''tender_procurementMethod'') * 2 + is_round a * (3/2) + (if isnull_sum cols r \<ge> 1 then 1 else 0) \<ge> 3/2 then 1 else 0)"
  by (simp_all add: restrict_row_def final_features_v1_def features_v1_def Let_def risk_score_v1_def)

lemma advanced_features_cells:
  "restrict_row final_features_v2 (advanced_features timing key df (a, r)) ''amount'' = Num a"
  "restrict_row final_features_v2 (advanced_features timing key df (a, r)) ''is_direct_procurement'' = Num (is_direct (r ''tender_procurementMethod''))"
  "restrict_row final_features_v2 (advanced_features timing key df (a, r)) ''is_round_amount'' = Num (is_round a)"
  "restrict_row final_features_v2 (advanced_features timing key df (a, r)) ''suspicious_timing'' = Num (timing r)"
  "restrict_row final_features_v2 (advanced_features timing key df (a, r)) ''supplier_award_count'' = Num (of_nat (supplier_award_count key df r))"
  "restrict_row final_features_v2 (advanced_features timing key df (a, r)) ''new_supplier_direct_deal'' =
      Num (if of_nat (supplier_award_count key df r) \<le> (3::rat) \<and> is_direct (r ''tender_procurementMethod'') = 1 then 1 else 0)"
  "restrict_row final_features_v2 (advanced_features timing key df (a, r)) ''risk_label'' =
      Num (if is_direct (r ''tender_procurementMethod'') * (3/2) + is_round a * 1 + timing r * 2
              + (if of_nat (supplier_award_count key df r) \<le> (3::rat) \<and> is_direct (r ''tender_procurementMethod'') = 1 then 1 else 0) * (5/2) \<ge> 2 then 1 else 0)"
  by (simp_all add: restrict_row_def final_features_v2_def advanced_features_def Let_def risk_score_v2_def)

lemma risk_score_v1_restrict:
  "risk_score_v1 (restrict_row final_features_v1 (features_v1 cols (a, r)))
     = is_direct (r ''tender_procurementMethod'') * 2 + is_round a * (3/2) + (if isnull_sum cols r \<ge> 1 then 1 else 0)"
  by (simp add: risk_score_v1_def features_v1_cells)

lemma risk_score_v2_restrict:
  "risk_score_v2 (restrict_row final_features_v2 (advanced_features timing key df (a, r)))
     = is_direct (r ''tender_procurementMethod'') * (3/2) + is_round a * 1 + timing r * 2
              + (if of_nat (supplier_award_count key df r) \<le> (3::rat) \<and> is_direct (r ''tender_procurementMethod'') = 1 then 1 else 0) * (5/2)"
  by (simp add: risk_score_v2_def advanced_features_cells)

lemma risk_score_v2_upd:
  "risk_score_v2 (m(''supplier_id'' := x, ''supplier_name'' := y)) = risk_score_v2 m"
  by (simp add: risk_score_v2_def)

lemma is_direct_cases: "is_direct x = 0 \<or> is_direct x = 1"
  by (simp add: is_direct_def split: cell.splits)

lemma is_round_cases: "is_round x = 0 \<or> is_round x = 1"
  by (simp add: is_round_def)

lemma map_of_value_counts:
  "map_of (value_counts xs) x =
     (if x \<in> set xs \<and> x \<noteq> NA then Some (length (filter (\<lambda>y. y = x) xs)) else None)"
proof -
  have "map_of (value_counts xs) = (Some \<circ> (\<lambda>v. length (filter (\<lambda>y. y = v) xs))) |` set (remdups (filter (\<lambda>x. x \<noteq> NA) xs))"
    unfolding value_counts_def by (rule map_of_map_restrict)
  then show ?thesis by (auto simp: restrict_map_def)
qed

lemma supplier_award_count_eq:
  assumes "r \<in> set (rows df)"
  shows "supplier_award_count key df r =
           (if r key = NA then 1 else length (filter (\<lambda>r'. r' key = r key) (rows df)))"
proof -
  have "length (filter (\<lambda>y. y = r key) (map (\<lambda>r. r key) (rows df))) = length (filter (\<lambda>r'. r' key = r key) (rows df))"
    by (simp add: filter_map comp_def)
  moreover have "r key \<in> set (map (\<lambda>r. r key) (rows df))" using assms by auto
  ultimately show ?thesis
    by (simp add: supplier_award_count_def Let_def map_of_value_counts del: set_map)
qed

lemma comparable_timing:
  assumes "set [''dateSigned'', ''period_startDate''] \<subseteq> set (columns df)"
    and "dates_comparable to_datetime df"
  obtains timing where "suspicious_timing to_datetime df = Inr timing"
proof -
  have "missing_column df [''dateSigned'', ''period_startDate''] = None"
    using assms(1) by (simp only: missing_column_None)
  then show ?thesis
    using suspicious_timing_comparable [of df to_datetime] assms(2) that by blast
qed

subsection \<open>The sample frames, evaluated\<close>

lemma ex_cols:
  "missing_column example_merged_v1 [''value_amount'', ''tender_procurementMethod''] = None"
  "missing_column example_merged_v2 [''value_amount'', ''tender_procurementMethod'', ''dateSigned'',
                              ''period_startDate'', ''name''] = None"
  "missing_column example_merged_v3 [''value_amount'', ''tender_procurementMethod'', ''dateSigned'',
                              ''period_startDate'', ''supplier_id'', ''name''] = None"
  by (simp_all add: missing_column_def example_merged_v1_def example_merged_v2_def example_merged_v3_def)

lemma is_round_examples: "is_round 5000 = 1" "is_round 1500 = 0" "is_round 0 = 0"
  by code_simp+

lemmas date_evals = mk_row_def datetime_sample_def sample_timestamp_def sample_date_def
     digit_val_def List.map_filter_simps

lemmas evals = mk_row_def clean_currency_def float_sample_def digit_val_def is_direct_def
     str_lower_def lower_char_def is_round_examples isnull_sum_def sample_timestamp_def
     sample_date_def supplier_award_count_def value_counts_def Let_def

lemma ex_dates:
  "dates_comparable datetime_sample example_merged_v2"
  "dates_comparable datetime_sample example_merged_v3"
  by (simp_all add: dates_comparable_def example_merged_v2_def example_merged_v3_def date_evals)

lemma ex_timing:
  "suspicious_timing datetime_sample example_merged_v2 =
     Inr (\<lambda>r. if (\<exists>s d. map_option fst (sample_timestamp (r ''period_startDate'')) = Some s
                      \<and> map_option fst (sample_timestamp (r ''dateSigned'')) = Some d \<and> s < d)
               then 1 else 0)"
  "suspicious_timing datetime_sample example_merged_v3 =
     Inr (\<lambda>r. if (\<exists>s d. map_option fst (sample_timestamp (r ''period_startDate'')) = Some s
                      \<and> map_option fst (sample_timestamp (r ''dateSigned'')) = Some d \<and> s < d)
               then 1 else 0)"
proof -
  let ?p = "\<lparr>tz_aware = False, stamp = map_option fst \<circ> sample_timestamp\<rparr>"
  have c: "missing_column example_merged_v2 [''dateSigned'', ''period_startDate''] = None"
          "missing_column example_merged_v3 [''dateSigned'', ''period_startDate''] = None"
    by (simp_all add: missing_column_def example_merged_v2_def example_merged_v3_def)
  have d: "datetime_sample (map (\<lambda>r. r ''dateSigned'') (rows example_merged_v2)) = Inr ?p"
          "datetime_sample (map (\<lambda>r. r ''period_startDate'') (rows example_merged_v2)) = Inr ?p"
          "datetime_sample (map (\<lambda>r. r ''dateSigned'') (rows example_merged_v3)) = Inr ?p"
          "datetime_sample (map (\<lambda>r. r ''period_startDate'') (rows example_merged_v3)) = Inr ?p"
    by (simp_all add: example_merged_v2_def example_merged_v3_def date_evals)
  show "suspicious_timing datetime_sample example_merged_v2 =
     Inr (\<lambda>r. if (\<exists>s d. map_option fst (sample_timestamp (r ''period_startDate'')) = Some s
                      \<and> map_option fst (sample_timestamp (r ''dateSigned'')) = Some d \<and> s < d)
               then 1 else 0)"
    using suspicious_timing_Inr [OF c(1) d(1) d(2)] by simp
  show "suspicious_timing datetime_sample example_merged_v3 =
     Inr (\<lambda>r. if (\<exists>s d. map_option fst (sample_timestamp (r ''period_startDate'')) = Some s
                      \<and> map_option fst (sample_timestamp (r ''dateSigned'')) = Some d \<and> s < d)
               then 1 else 0)"
    using suspicious_timing_Inr [OF c(2) d(3) d(4)] by simp
qed

lemma ex_row0_v1:
  "rows (projr (engineer_features float_sample example_merged_v1)) \<noteq> []"
  "(rows (projr (engineer_features float_sample example_merged_v1)) ! 0) ''is_direct_procurement'' = Num 1"
  "(rows (projr (engineer_features float_sample example_merged_v1)) ! 0) ''is_round_amount'' = Num 1"
  "(rows (projr (engineer_features float_sample example_merged_v1)) ! 0) ''missing_data_count'' = Num 0"
  by (simp_all add: engineer_features_Inr ex_cols)
     (simp_all add: example_merged_v1_def features_v1_cells evals)

lemma ex_row0_v2:
  "rows (projr (engineer_features_v2 float_sample datetime_sample example_merged_v2)) \<noteq> []"
  "(rows (projr (engineer_features_v2 float_sample datetime_sample example_merged_v2)) ! 0) ''is_direct_procurement'' = Num 1"
  "(rows (projr (engineer_features_v2 float_sample datetime_sample example_merged_v2)) ! 0) ''is_round_amount'' = Num 1"
  "(rows (projr (engineer_features_v2 float_sample datetime_sample example_merged_v2)) ! 0) ''suspicious_timing'' = Num 1"
  "(rows (projr (engineer_features_v2 float_sample datetime_sample example_merged_v2)) ! 0) ''new_supplier_direct_deal'' = Num 1"
  by (simp_all add: engineer_features_v2_Inr [OF ex_cols(2) ex_timing(1)])
     (simp_all add: example_merged_v2_def advanced_features_cells evals)

lemma ex_row0_v3:
  "rows (projr (engineer_features_v3 float_sample datetime_sample example_merged_v3)) \<noteq> []"
  "(rows (projr (engineer_features_v3 float_sample datetime_sample example_merged_v3)) ! 0) ''is_direct_procurement'' = Num 1"
  "(rows (projr (engineer_features_v3 float_sample datetime_sample example_merged_v3)) ! 0) ''is_round_amount'' = Num 1"
  "(rows (projr (engineer_features_v3 float_sample datetime_sample example_merged_v3)) ! 0) ''suspicious_timing'' = Num 1"
  "(rows (projr (engineer_features_v3 float_sample datetime_sample example_merged_v3)) ! 0) ''new_supplier_direct_deal'' = Num 1"
proof -
  from engineer_features_v3_Inr [OF ex_cols(3) ex_timing(2), of float_sample]
  obtain ns where e: "engineer_features_v3 float_sample datetime_sample example_merged_v3 =
           Inr \<lparr>columns = final_features_v2 @ [''supplier_id'', ''supplier_name''],
                numeric = ns,
                rows = map (\<lambda>r. (restrict_row final_features_v2
                              (advanced_features
                                 (\<lambda>r. if (\<exists>s d. map_option fst (sample_timestamp (r ''period_startDate'')) = Some s
                      \<and> map_option fst (sample_timestamp (r ''dateSigned'')) = Some d \<and> s < d)
               then 1 else 0) ''supplier_id'' example_merged_v3
                                 (projr (clean_currency float_sample (r ''value_amount'')), r)))
                               (''supplier_id'' := r ''supplier_id'',
                                ''supplier_name'' := r ''name''))
                         (rows example_merged_v3)\<rparr>"
    by blast
  show "rows (projr (engineer_features_v3 float_sample datetime_sample example_merged_v3)) \<noteq> []"
  "(rows (projr (engineer_features_v3 float_sample datetime_sample example_merged_v3)) ! 0) ''is_direct_procurement'' = Num 1"
  "(rows (projr (engineer_features_v3 float_sample datetime_sample example_merged_v3)) ! 0) ''is_round_amount'' = Num 1"
  "(rows (projr (engineer_features_v3 float_sample datetime_sample example_merged_v3)) ! 0) ''suspicious_timing'' = Num 1"
  "(rows (projr (engineer_features_v3 float_sample datetime_sample example_merged_v3)) ! 0) ''new_supplier_direct_deal'' = Num 1"
    by (simp_all add: e)
       (simp_all add: example_merged_v3_def advanced_features_cells evals)
qed


subsection \<open>Risk score and risk label\<close>

text \<open>
  Claim C1. A frame with the input columns gives a feature frame (in the second and third
  version: when the date lines do not raise), and for every row of it
  the score the function computes is the weighted sum of the indicators with the weights
  of the version: 2.0, 1.5 and 1.0 on the direct-procurement flag, the round-amount flag
  and the flag "at least one missing field" in the first version; 1.5, 1.0, 2.0 and 2.5 on
  the direct-procurement flag, the round-amount flag, the suspicious-timing flag and the
  new-supplier-direct-deal flag in the second and third. The label is 1 when the score
  reaches the threshold of the version (1.5, 2.0) and 0 otherwise.
\<close>

theorem risk_score_weighted_sum:
  "(missing_column df [''value_amount'', ''tender_procurementMethod''] = None \<longrightarrow>
      (\<exists>out. engineer_features float_of df = Inr out \<and>
         (\<forall>m \<in> set (rows out).
            risk_score_v1 m = 2 * cell_num (m ''is_direct_procurement'')
                              + 3 / 2 * cell_num (m ''is_round_amount'')
                              + 1 * (if 1 \<le> cell_num (m ''missing_data_count'') then 1 else 0)
            \<and> m ''risk_label'' = Num (if 3 / 2 \<le> risk_score_v1 m then 1 else 0))))
   \<and> (missing_column df [''value_amount'', ''tender_procurementMethod'', ''dateSigned'',
                          ''period_startDate'', ''name''] = None
        \<and> dates_comparable to_datetime df \<longrightarrow>
      (\<exists>out. engineer_features_v2 float_of to_datetime df = Inr out \<and>
         (\<forall>m \<in> set (rows out).
            risk_score_v2 m = 3 / 2 * cell_num (m ''is_direct_procurement'')
                              + 1 * cell_num (m ''is_round_amount'')
                              + 2 * cell_num (m ''suspicious_timing'')
                              + 5 / 2 * cell_num (m ''new_supplier_direct_deal'')
            \<and> m ''risk_label'' = Num (if 2 \<le> risk_score_v2 m then 1 else 0))))
   \<and> (missing_column df [''value_amount'', ''tender_procurementMethod'', ''dateSigned'',
                          ''period_startDate'', ''supplier_id'', ''name''] = None
        \<and> dates_comparable to_datetime df \<longrightarrow>
      (\<exists>out. engineer_features_v3 float_of to_datetime df = Inr out \<and>
         (\<forall>m \<in> set (rows out).
            risk_score_v2 m = 3 / 2 * cell_num (m ''is_direct_procurement'')
                              + 1 * cell_num (m ''is_round_amount'')
                              + 2 * cell_num (m ''suspicious_timing'')
                              + 5 / 2 * cell_num (m ''new_supplier_direct_deal'')
            \<and> m ''risk_label'' = Num (if 2 \<le> risk_score_v2 m then 1 else 0))))"
proof (intro conjI impI)
  assume "missing_column df [''value_amount'', ''tender_procurementMethod''] = None"
  then show "\<exists>out. engineer_features float_of df = Inr out \<and>
         (\<forall>m \<in> set (rows out).
            risk_score_v1 m = 2 * cell_num (m ''is_direct_procurement'')
                              + 3 / 2 * cell_num (m ''is_round_amount'')
                              + 1 * (if 1 \<le> cell_num (m ''missing_data_count'') then 1 else 0)
            \<and> m ''risk_label'' = Num (if 3 / 2 \<le> risk_score_v1 m then 1 else 0))"
    by (simp add: engineer_features_Inr risk_score_v1_restrict features_v1_cells)
next
  assume a: "missing_column df [''value_amount'', ''tender_procurementMethod'', ''dateSigned'',
                          ''period_startDate'', ''name''] = None
        \<and> dates_comparable to_datetime df"
  then have "set [''dateSigned'', ''period_startDate''] \<subseteq> set (columns df)"
    by (simp add: missing_column_None)
  then obtain timing where t: "suspicious_timing to_datetime df = Inr timing"
    using a comparable_timing by blast
  show "\<exists>out. engineer_features_v2 float_of to_datetime df = Inr out \<and>
         (\<forall>m \<in> set (rows out).
            risk_score_v2 m = 3 / 2 * cell_num (m ''is_direct_procurement'')
                              + 1 * cell_num (m ''is_round_amount'')
                              + 2 * cell_num (m ''suspicious_timing'')
                              + 5 / 2 * cell_num (m ''new_supplier_direct_deal'')
            \<and> m ''risk_label'' = Num (if 2 \<le> risk_score_v2 m then 1 else 0))"
    by (simp add: engineer_features_v2_Inr [OF a [THEN conjunct1] t]
          risk_score_v2_restrict advanced_features_cells)
next
  assume a: "missing_column df [''value_amount'', ''tender_procurementMethod'', ''dateSigned'',
                          ''period_startDate'', ''supplier_id'', ''name''] = None
        \<and> dates_comparable to_datetime df"
  then have "set [''dateSigned'', ''period_startDate''] \<subseteq> set (columns df)"
    by (simp add: missing_column_None)
  then obtain timing where t: "suspicious_timing to_datetime df = Inr timing"
    using a comparable_timing by blast
  from engineer_features_v3_Inr [OF a [THEN conjunct1] t, of float_of]
  obtain ns where e: "engineer_features_v3 float_of to_datetime df =
           Inr \<lparr>columns = final_features_v2 @ [''supplier_id'', ''supplier_name''],
                numeric = ns,
                rows = map (\<lambda>r. (restrict_row final_features_v2
                              (advanced_features timing ''supplier_id'' df
                                 (projr (clean_currency float_of (r ''value_amount'')), r)))
                               (''supplier_id'' := r ''supplier_id'',
                                ''supplier_name'' := r ''name''))
                         (rows df)\<rparr>"
    by blast
  show "\<exists>out. engineer_features_v3 float_of to_datetime df = Inr out \<and>
         (\<forall>m \<in> set (rows out).
            risk_score_v2 m = 3 / 2 * cell_num (m ''is_direct_procurement'')
                              + 1 * cell_num (m ''is_round_amount'')
                              + 2 * cell_num (m ''suspicious_timing'')
                              + 5 / 2 * cell_num (m ''new_supplier_direct_deal'')
            \<and> m ''risk_label'' = Num (if 2 \<le> risk_score_v2 m then 1 else 0))"
    by (simp add: e risk_score_v2_upd risk_score_v2_restrict advanced_features_cells)
qed

theorem risk_score_weighted_sum_witness:
  "(\<exists>out. engineer_features float_sample example_merged_v1 = Inr out
      \<and> risk_score_v1 (rows out ! 0) = 7 / 2 \<and> (rows out ! 0) ''risk_label'' = Num 1)
   \<and> (\<exists>out. engineer_features_v2 float_sample datetime_sample example_merged_v2 = Inr out
      \<and> risk_score_v2 (rows out ! 0) = 7 \<and> (rows out ! 0) ''risk_label'' = Num 1)
   \<and> (\<exists>out. engineer_features_v3 float_sample datetime_sample example_merged_v3 = Inr out
      \<and> risk_score_v2 (rows out ! 0) = 7 \<and> (rows out ! 0) ''risk_label'' = Num 1)"
proof -
  have h1: "missing_column example_merged_v1 [''value_amount'', ''tender_procurementMethod''] = None"
    by (simp add: missing_column_def example_merged_v1_def)
  have h2: "missing_column example_merged_v2
              [''value_amount'', ''tender_procurementMethod'', ''dateSigned'',
               ''period_startDate'', ''name''] = None
            \<and> dates_comparable datetime_sample example_merged_v2"
    using ex_cols(2) ex_dates(1) by simp
  have h3: "missing_column example_merged_v3
              [''value_amount'', ''tender_procurementMethod'', ''dateSigned'',
               ''period_startDate'', ''supplier_id'', ''name''] = None
            \<and> dates_comparable datetime_sample example_merged_v3"
    using ex_cols(3) ex_dates(2) by simp
  from risk_score_weighted_sum [of example_merged_v1 float_sample datetime_sample, THEN conjunct1, rule_format, OF h1]
  obtain out1 where o1: "engineer_features float_sample example_merged_v1 = Inr out1"
    and p1: "\<forall>m \<in> set (rows out1).
            risk_score_v1 m = 2 * cell_num (m ''is_direct_procurement'')
                              + 3 / 2 * cell_num (m ''is_round_amount'')
                              + 1 * (if 1 \<le> cell_num (m ''missing_data_count'') then 1 else 0)
            \<and> m ''risk_label'' = Num (if 3 / 2 \<le> risk_score_v1 m then 1 else 0)"
    by blast
  have e1: "out1 = projr (engineer_features float_sample example_merged_v1)"
    using o1 by simp
  have "rows out1 ! 0 \<in> set (rows out1)"
    using ex_row0_v1(1) by (simp add: e1)
  from p1 [rule_format, OF this]
  have a1: "risk_score_v1 (rows out1 ! 0) = 7 / 2 \<and> (rows out1 ! 0) ''risk_label'' = Num 1"
    using ex_row0_v1 by (simp add: e1)
  from risk_score_weighted_sum [of example_merged_v2 float_sample datetime_sample, THEN conjunct2, THEN conjunct1, rule_format, OF h2]
  obtain out2 where o2: "engineer_features_v2 float_sample datetime_sample example_merged_v2 = Inr out2"
    and p2: "\<forall>m \<in> set (rows out2).
            risk_score_v2 m = 3 / 2 * cell_num (m ''is_direct_procurement'')
                              + 1 * cell_num (m ''is_round_amount'')
                              + 2 * cell_num (m ''suspicious_timing'')
                              + 5 / 2 * cell_num (m ''new_supplier_direct_deal'')
            \<and> m ''risk_label'' = Num (if 2 \<le> risk_score_v2 m then 1 else 0)"
    by blast
  have e2: "out2 = projr (engineer_features_v2 float_sample datetime_sample example_merged_v2)"
    using o2 by simp
  have "rows out2 ! 0 \<in> set (rows out2)"
    using ex_row0_v2(1) by (simp add: e2)
  from p2 [rule_format, OF this]
  have a2: "risk_score_v2 (rows out2 ! 0) = 7 \<and> (rows out2 ! 0) ''risk_label'' = Num 1"
    using ex_row0_v2 by (simp add: e2)
  from risk_score_weighted_sum [of example_merged_v3 float_sample datetime_sample, THEN conjunct2, THEN conjunct2, rule_format, OF h3]
  obtain out3 where o3: "engineer_features_v3 float_sample datetime_sample example_merged_v3 = Inr out3"
    and p3: "\<forall>m \<in> set (rows out3).
            risk_score_v2 m = 3 / 2 * cell_num (m ''is_direct_procurement'')
                              + 1 * cell_num (m ''is_round_amount'')
                              + 2 * cell_num (m ''suspicious_timing'')
                              + 5 / 2 * cell_num (m ''new_supplier_direct_deal'')
            \<and> m ''risk_label'' = Num (if 2 \<le> risk_score_v2 m then 1 else 0)"
    by blast
  have e3: "out3 = projr (engineer_features_v3 float_sample datetime_sample example_merged_v3)"
    using o3 by simp
  have "rows out3 ! 0 \<in> set (rows out3)"
    using ex_row0_v3(1) by (simp add: e3)
  from p3 [rule_format, OF this]
  have a3: "risk_score_v2 (rows out3 ! 0) = 7 \<and> (rows out3 ! 0) ''risk_label'' = Num 1"
    using ex_row0_v3 by (simp add: e3)
  show ?thesis using o1 a1 o2 a2 o3 a3 by blast
qed

text \<open>
  Claim C10. One flag alone saturates the label. In the first version a row with the
  direct-procurement flag has label 1, and so has a row with the round-amount flag. In the
  second and third version (when the date lines do not raise, so that there are feature
  rows) a row with the suspicious-timing flag has label 1, and a row
  with the new-supplier-direct-deal flag has the direct-procurement flag as well, a score
  of at least 4, and label 1.
\<close>

theorem single_flag_saturation:
  "(missing_column df [''value_amount'', ''tender_procurementMethod''] = None \<longrightarrow>
      (\<exists>out. engineer_features float_of df = Inr out \<and>
         (\<forall>m \<in> set (rows out).
            (m ''is_direct_procurement'' = Num 1 \<longrightarrow> m ''risk_label'' = Num 1)
            \<and> (m ''is_round_amount'' = Num 1 \<longrightarrow> m ''risk_label'' = Num 1))))
   \<and> (missing_column df [''value_amount'', ''tender_procurementMethod'', ''dateSigned'',
                          ''period_startDate'', ''name''] = None
        \<and> dates_comparable to_datetime df \<longrightarrow>
      (\<exists>out. engineer_features_v2 float_of to_datetime df = Inr out \<and>
         (\<forall>m \<in> set (rows out).
            (m ''suspicious_timing'' = Num 1 \<longrightarrow> m ''risk_label'' = Num 1)
            \<and> (m ''new_supplier_direct_deal'' = Num 1 \<longrightarrow>
                 m ''is_direct_procurement'' = Num 1 \<and> 4 \<le> risk_score_v2 m
                 \<and> m ''risk_label'' = Num 1))))
   \<and> (missing_column df [''value_amount'', ''tender_procurementMethod'', ''dateSigned'',
                          ''period_startDate'', ''supplier_id'', ''name''] = None
        \<and> dates_comparable to_datetime df \<longrightarrow>
      (\<exists>out. engineer_features_v3 float_of to_datetime df = Inr out \<and>
         (\<forall>m \<in> set (rows out).
            (m ''suspicious_timing'' = Num 1 \<longrightarrow> m ''risk_label'' = Num 1)
            \<and> (m ''new_supplier_direct_deal'' = Num 1 \<longrightarrow>
                 m ''is_direct_procurement'' = Num 1 \<and> 4 \<le> risk_score_v2 m
                 \<and> m ''risk_label'' = Num 1))))"
proof -
  have v1: "(m ''is_direct_procurement'' = Num 1 \<longrightarrow> m ''risk_label'' = Num 1)
            \<and> (m ''is_round_amount'' = Num 1 \<longrightarrow> m ''risk_label'' = Num 1)"
    if "m = restrict_row final_features_v1 (features_v1 cols (a, r))" for m cols a r
    using is_direct_cases [of "r ''tender_procurementMethod''"] is_round_cases [of a]
    by (auto simp: that features_v1_cells)
  have v2: "(m ''suspicious_timing'' = Num 1 \<longrightarrow> m ''risk_label'' = Num 1)
            \<and> (m ''new_supplier_direct_deal'' = Num 1 \<longrightarrow>
                 m ''is_direct_procurement'' = Num 1 \<and> 4 \<le> risk_score_v2 m
                 \<and> m ''risk_label'' = Num 1)"
    if "timing r = 0 \<or> timing r = 1"
      and "m = restrict_row final_features_v2 (advanced_features timing key df (a, r))"
    for timing r m key a
    using is_direct_cases [of "r ''tender_procurementMethod''"] is_round_cases [of a] that(1)
    by (auto simp: that(2) advanced_features_cells risk_score_v2_restrict)
  have v3: "(m ''suspicious_timing'' = Num 1 \<longrightarrow> m ''risk_label'' = Num 1)
            \<and> (m ''new_supplier_direct_deal'' = Num 1 \<longrightarrow>
                 m ''is_direct_procurement'' = Num 1 \<and> 4 \<le> risk_score_v2 m
                 \<and> m ''risk_label'' = Num 1)"
    if "timing r = 0 \<or> timing r = 1"
      and "m = (restrict_row final_features_v2 (advanced_features timing key df (a, r)))
              (''supplier_id'' := x, ''supplier_name'' := y)"
    for timing r m key a x y
    using v2 [of timing r, OF that(1) refl, of key a] by (simp add: that(2) risk_score_v2_upd)
  show ?thesis
  proof (intro conjI impI)
    assume "missing_column df [''value_amount'', ''tender_procurementMethod''] = None"
    then show "\<exists>out. engineer_features float_of df = Inr out \<and>
         (\<forall>m \<in> set (rows out).
            (m ''is_direct_procurement'' = Num 1 \<longrightarrow> m ''risk_label'' = Num 1)
            \<and> (m ''is_round_amount'' = Num 1 \<longrightarrow> m ''risk_label'' = Num 1))"
      using v1 by (simp add: engineer_features_Inr)
  next
    assume a: "missing_column df [''value_amount'', ''tender_procurementMethod'', ''dateSigned'',
                          ''period_startDate'', ''name''] = None
        \<and> dates_comparable to_datetime df"
    then have "set [''dateSigned'', ''period_startDate''] \<subseteq> set (columns df)"
      by (simp add: missing_column_None)
    then obtain timing where t: "suspicious_timing to_datetime df = Inr timing"
      using a comparable_timing by blast
    have c: "timing r = 0 \<or> timing r = 1" for r
      using suspicious_timing_cases [OF t] .
    show "\<exists>out. engineer_features_v2 float_of to_datetime df = Inr out \<and>
         (\<forall>m \<in> set (rows out).
            (m ''suspicious_timing'' = Num 1 \<longrightarrow> m ''risk_label'' = Num 1)
            \<and> (m ''new_supplier_direct_deal'' = Num 1 \<longrightarrow>
                 m ''is_direct_procurement'' = Num 1 \<and> 4 \<le> risk_score_v2 m
                 \<and> m ''risk_label'' = Num 1))"
      using v2 [of timing, OF c refl]
      by (simp add: engineer_features_v2_Inr [OF a [THEN conjunct1] t])
  next
    assume a: "missing_column df [''value_amount'', ''tender_procurementMethod'', ''dateSigned'',
                          ''period_startDate'', ''supplier_id'', ''name''] = None
        \<and> dates_comparable to_datetime df"
    then have "set [''dateSigned'', ''period_startDate''] \<subseteq> set (columns df)"
      by (simp add: missing_column_None)
    then obtain timing where t: "suspicious_timing to_datetime df = Inr timing"
      using a comparable_timing by blast
    have c: "timing r = 0 \<or> timing r = 1" for r
      using suspicious_timing_cases [OF t] .
    from engineer_features_v3_Inr [OF a [THEN conjunct1] t, of float_of]
    obtain ns where e: "engineer_features_v3 float_of to_datetime df =
           Inr \<lparr>columns = final_features_v2 @ [''supplier_id'', ''supplier_name''],
                numeric = ns,
                rows = map (\<lambda>r. (restrict_row final_features_v2
                              (advanced_features timing ''supplier_id'' df
                                 (projr (clean_currency float_of (r ''value_amount'')), r)))
                               (''supplier_id'' := r ''supplier_id'',
                                ''supplier_name'' := r ''name''))
                         (rows df)\<rparr>"
      by blast
    show "\<exists>out. engineer_features_v3 float_of to_datetime df = Inr out \<and>
         (\<forall>m \<in> set (rows out).
            (m ''suspicious_timing'' = Num 1 \<longrightarrow> m ''risk_label'' = Num 1)
            \<and> (m ''new_supplier_direct_deal'' = Num 1 \<longrightarrow>
                 m ''is_direct_procurement'' = Num 1 \<and> 4 \<le> risk_score_v2 m
                 \<and> m ''risk_label'' = Num 1))"
      using v3 [of timing, OF c refl] by (simp add: e)
  qed
qed

theorem single_flag_saturation_witness:
  "(\<exists>out. engineer_features float_sample example_merged_v1 = Inr out
      \<and> (rows out ! 0) ''is_direct_procurement'' = Num 1
      \<and> (rows out ! 0) ''is_round_amount'' = Num 1
      \<and> (rows out ! 0) ''risk_label'' = Num 1)
   \<and> (\<exists>out. engineer_features_v2 float_sample datetime_sample example_merged_v2 = Inr out
      \<and> (rows out ! 0) ''suspicious_timing'' = Num 1
      \<and> (rows out ! 0) ''new_supplier_direct_deal'' = Num 1
      \<and> 4 \<le> risk_score_v2 (rows out ! 0)
      \<and> (rows out ! 0) ''risk_label'' = Num 1)
   \<and> (\<exists>out. engineer_features_v3 float_sample datetime_sample example_merged_v3 = Inr out
      \<and> (rows out ! 0) ''suspicious_timing'' = Num 1
      \<and> (rows out ! 0) ''new_supplier_direct_deal'' = Num 1
      \<and> 4 \<le> risk_score_v2 (rows out ! 0)
      \<and> (rows out ! 0) ''risk_label'' = Num 1)"
proof -
  have h1: "missing_column example_merged_v1 [''value_amount'', ''tender_procurementMethod''] = None"
    by (simp add: missing_column_def example_merged_v1_def)
  have h2: "missing_column example_merged_v2
              [''value_amount'', ''tender_procurementMethod'', ''dateSigned'',
               ''period_startDate'', ''name''] = None
            \<and> dates_comparable datetime_sample example_merged_v2"
    using ex_cols(2) ex_dates(1) by simp
  have h3: "missing_column example_merged_v3
              [''value_amount'', ''tender_procurementMethod'', ''dateSigned'',
               ''period_startDate'', ''supplier_id'', ''name''] = None
            \<and> dates_comparable datetime_sample example_merged_v3"
    using ex_cols(3) ex_dates(2) by simp
  from single_flag_saturation [of example_merged_v1 float_sample datetime_sample, THEN conjunct1, rule_format, OF h1]
  obtain out1 where o1: "engineer_features float_sample example_merged_v1 = Inr out1"
    and p1: "\<forall>m \<in> set (rows out1).
            (m ''is_direct_procurement'' = Num 1 \<longrightarrow> m ''risk_label'' = Num 1)
            \<and> (m ''is_round_amount'' = Num 1 \<longrightarrow> m ''risk_label'' = Num 1)"
    by blast
  have e1: "out1 = projr (engineer_features float_sample example_merged_v1)"
    using o1 by simp
  have "rows out1 ! 0 \<in> set (rows out1)"
    using ex_row0_v1(1) by (simp add: e1)
  from p1 [rule_format, OF this]
  have a1: "(rows out1 ! 0) ''is_direct_procurement'' = Num 1 \<and> (rows out1 ! 0) ''is_round_amount'' = Num 1 \<and> (rows out1 ! 0) ''risk_label'' = Num 1"
    using ex_row0_v1 by (simp add: e1)
  from single_flag_saturation [of example_merged_v2 float_sample datetime_sample, THEN conjunct2, THEN conjunct1, rule_format, OF h2]
  obtain out2 where o2: "engineer_features_v2 float_sample datetime_sample example_merged_v2 = Inr out2"
    and p2: "\<forall>m \<in> set (rows out2).
            (m ''suspicious_timing'' = Num 1 \<longrightarrow> m ''risk_label'' = Num 1)
            \<and> (m ''new_supplier_direct_deal'' = Num 1 \<longrightarrow>
                 m ''is_direct_procurement'' = Num 1 \<and> 4 \<le> risk_score_v2 m
                 \<and> m ''risk_label'' = Num 1)"
    by blast
  have e2: "out2 = projr (engineer_features_v2 float_sample datetime_sample example_merged_v2)"
    using o2 by simp
  have "rows out2 ! 0 \<in> set (rows out2)"
    using ex_row0_v2(1) by (simp add: e2)
  from p2 [rule_format, OF this]
  have a2: "(rows out2 ! 0) ''suspicious_timing'' = Num 1 \<and> (rows out2 ! 0) ''new_supplier_direct_deal'' = Num 1 \<and> 4 \<le> risk_score_v2 (rows out2 ! 0) \<and> (rows out2 ! 0) ''risk_label'' = Num 1"
    using ex_row0_v2 by (simp add: e2)
  from single_flag_saturation [of example_merged_v3 float_sample datetime_sample, THEN conjunct2, THEN conjunct2, rule_format, OF h3]
  obtain out3 where o3: "engineer_features_v3 float_sample datetime_sample example_merged_v3 = Inr out3"
    and p3: "\<forall>m \<in> set (rows out3).
            (m ''suspicious_timing'' = Num 1 \<longrightarrow> m ''risk_label'' = Num 1)
            \<and> (m ''new_supplier_direct_deal'' = Num 1 \<longrightarrow>
                 m ''is_direct_procurement'' = Num 1 \<and> 4 \<le> risk_score_v2 m
                 \<and> m ''risk_label'' = Num 1)"
    by blast
  have e3: "out3 = projr (engineer_features_v3 float_sample datetime_sample example_merged_v3)"
    using o3 by simp
  have "rows out3 ! 0 \<in> set (rows out3)"
    using ex_row0_v3(1) by (simp add: e3)
  from p3 [rule_format, OF this]
  have a3: "(rows out3 ! 0) ''suspicious_timing'' = Num 1 \<and> (rows out3 ! 0) ''new_supplier_direct_deal'' = Num 1 \<and> 4 \<le> risk_score_v2 (rows out3 ! 0) \<and> (rows out3 ! 0) ''risk_label'' = Num 1"
    using ex_row0_v3 by (simp add: e3)
  show ?thesis using o1 a1 o2 a2 o3 a3 by blast
qed

subsection \<open>Missing data count\<close>

text \<open>
  Claim C9. In the first version the feature frame has one row for each row of the merged
  frame, and the missing-data count of a row is the number of columns of the merged frame
  that are missing in the merged row (an empty field of a file is read as a missing
  value).
\<close>

theorem missing_data_count_nulls:
  "missing_column df [''value_amount'', ''tender_procurementMethod''] = None \<Longrightarrow>
     \<exists>out. engineer_features float_of df = Inr out
        \<and> length (rows out) = length (rows df)
        \<and> (\<forall>i < length (rows df).
              (rows out ! i) ''missing_data_count''
                = Num (of_nat (length (filter (\<lambda>c. (rows df ! i) c = NA) (columns df)))))"
  by (simp add: engineer_features_Inr features_v1_cells isnull_sum_def)

theorem missing_data_count_nulls_witness:
  "\<exists>out. engineer_features float_sample example_merged_v1 = Inr out
      \<and> length (rows out) = 3
      \<and> (rows out ! 0) ''missing_data_count'' = Num 0
      \<and> (rows out ! 2) ''missing_data_count'' = Num 1"
proof -
  have h: "missing_column example_merged_v1 [''value_amount'', ''tender_procurementMethod''] = None"
    by (simp add: missing_column_def example_merged_v1_def)
  from missing_data_count_nulls [OF h, of float_sample]
  obtain out where o: "engineer_features float_sample example_merged_v1 = Inr out"
    and l: "length (rows out) = length (rows example_merged_v1)"
    and n: "\<forall>i < length (rows example_merged_v1).
              (rows out ! i) ''missing_data_count''
                = Num (of_nat (length (filter (\<lambda>c. (rows example_merged_v1 ! i) c = NA)
                                         (columns example_merged_v1))))"
    by blast
  have "length (rows out) = 3" using l by (simp add: example_merged_v1_def)
  moreover have "(rows out ! 0) ''missing_data_count'' = Num 0"
    using n [rule_format, of 0] by (simp add: example_merged_v1_def mk_row_def)
  moreover have "(rows out ! 2) ''missing_data_count'' = Num 1"
    using n [rule_format, of 2] by (simp add: example_merged_v1_def mk_row_def)
  ultimately show ?thesis using o by blast
qed

subsection \<open>Suspicious timing\<close>

lemma ex_tz_raises:
  "suspicious_timing datetime_sample example_merged_tz = Inl TypeError"
  by (simp add: suspicious_timing_def missing_column_def datetimes_less_def
        example_merged_tz_def date_evals)

lemma ex_tz_features:
  "engineer_features_v2 float_sample datetime_sample example_merged_tz = Inl TypeError"
  "engineer_features_v3 float_sample datetime_sample example_merged_tz = Inl TypeError"
proof -
  have c: "missing_column example_merged_tz [''value_amount'', ''tender_procurementMethod''] = None"
    by (simp add: missing_column_def example_merged_tz_def)
  show "engineer_features_v2 float_sample datetime_sample example_merged_tz = Inl TypeError"
    by (simp add: engineer_features_v2_def c series_apply_clean_currency ex_tz_raises)
  show "engineer_features_v3 float_sample datetime_sample example_merged_tz = Inl TypeError"
    by (simp add: engineer_features_v3_def c series_apply_clean_currency ex_tz_raises)
qed

text \<open>
  Claim C6. In the second and third version, when both date columns parse without an
  exception and are both time-zone aware or both not, the feature function returns one
  row for each row of the merged frame, and the suspicious-timing flag of a row is 1 when
  both the period start date and the signature date of the row parse and the start is
  before the signature, and 0 in every other case: a date that does not parse never
  gives 1. When a date column raises in parsing, or one parsed column is time-zone aware
  and the other is not, the feature function raises and there is no flag.
\<close>

theorem suspicious_timing_both_dates:
  "(missing_column df [''value_amount'', ''tender_procurementMethod'', ''dateSigned'',
                       ''period_startDate'', ''name''] = None \<longrightarrow>
      (\<forall>date_signed start_date.
          to_datetime (map (\<lambda>r. r ''dateSigned'') (rows df)) = Inr date_signed
          \<and> to_datetime (map (\<lambda>r. r ''period_startDate'') (rows df)) = Inr start_date
          \<and> tz_aware start_date = tz_aware date_signed \<longrightarrow>
          (\<exists>out. engineer_features_v2 float_of to_datetime df = Inr out
             \<and> length (rows out) = length (rows df)
             \<and> (\<forall>i < length (rows df).
                   (rows out ! i) ''suspicious_timing''
                     = Num (if (\<exists>s d. stamp start_date ((rows df ! i) ''period_startDate'') = Some s
                                     \<and> stamp date_signed ((rows df ! i) ''dateSigned'') = Some d
                                     \<and> s < d)
                            then 1 else 0))))
      \<and> (\<not> dates_comparable to_datetime df \<longrightarrow>
            (\<exists>e. engineer_features_v2 float_of to_datetime df = Inl e)))
   \<and> (missing_column df [''value_amount'', ''tender_procurementMethod'', ''dateSigned'',
                          ''period_startDate'', ''supplier_id'', ''name''] = None \<longrightarrow>
      (\<forall>date_signed start_date.
          to_datetime (map (\<lambda>r. r ''dateSigned'') (rows df)) = Inr date_signed
          \<and> to_datetime (map (\<lambda>r. r ''period_startDate'') (rows df)) = Inr start_date
          \<and> tz_aware start_date = tz_aware date_signed \<longrightarrow>
          (\<exists>out. engineer_features_v3 float_of to_datetime df = Inr out
             \<and> length (rows out) = length (rows df)
             \<and> (\<forall>i < length (rows df).
                   (rows out ! i) ''suspicious_timing''
                     = Num (if (\<exists>s d. stamp start_date ((rows df ! i) ''period_startDate'') = Some s
                                     \<and> stamp date_signed ((rows df ! i) ''dateSigned'') = Some d
                                     \<and> s < d)
                            then 1 else 0))))
      \<and> (\<not> dates_comparable to_datetime df \<longrightarrow>
            (\<exists>e. engineer_features_v3 float_of to_datetime df = Inl e)))"
proof (intro conjI impI allI)
  fix date_signed start_date
  assume c: "missing_column df [''value_amount'', ''tender_procurementMethod'', ''dateSigned'',
                       ''period_startDate'', ''name''] = None"
    and d: "to_datetime (map (\<lambda>r. r ''dateSigned'') (rows df)) = Inr date_signed
          \<and> to_datetime (map (\<lambda>r. r ''period_startDate'') (rows df)) = Inr start_date
          \<and> tz_aware start_date = tz_aware date_signed"
  have "missing_column df [''dateSigned'', ''period_startDate''] = None"
    using c by (simp add: missing_column_None)
  from suspicious_timing_Inr [OF this, of to_datetime date_signed start_date] d
  have t: "suspicious_timing to_datetime df =
           Inr (\<lambda>r. if (\<exists>s d. stamp start_date (r ''period_startDate'') = Some s
                           \<and> stamp date_signed (r ''dateSigned'') = Some d \<and> s < d)
                    then 1 else 0)"
    by blast
  show "\<exists>out. engineer_features_v2 float_of to_datetime df = Inr out
             \<and> length (rows out) = length (rows df)
             \<and> (\<forall>i < length (rows df).
                   (rows out ! i) ''suspicious_timing''
                     = Num (if (\<exists>s d. stamp start_date ((rows df ! i) ''period_startDate'') = Some s
                                     \<and> stamp date_signed ((rows df ! i) ''dateSigned'') = Some d
                                     \<and> s < d)
                            then 1 else 0))"
    by (simp add: engineer_features_v2_Inr [OF c t] advanced_features_cells)
next
  assume c: "missing_column df [''value_amount'', ''tender_procurementMethod'', ''dateSigned'',
                       ''period_startDate'', ''name''] = None"
    and n: "\<not> dates_comparable to_datetime df"
  have "missing_column df [''value_amount'', ''tender_procurementMethod''] = None"
    using c by (simp add: missing_column_None)
  then show "\<exists>e. engineer_features_v2 float_of to_datetime df = Inl e"
    using engineer_features_raises(1) [OF n] by blast
next
  fix date_signed start_date
  assume c: "missing_column df [''value_amount'', ''tender_procurementMethod'', ''dateSigned'',
                       ''period_startDate'', ''supplier_id'', ''name''] = None"
    and d: "to_datetime (map (\<lambda>r. r ''dateSigned'') (rows df)) = Inr date_signed
          \<and> to_datetime (map (\<lambda>r. r ''period_startDate'') (rows df)) = Inr start_date
          \<and> tz_aware start_date = tz_aware date_signed"
  have "missing_column df [''dateSigned'', ''period_startDate''] = None"
    using c by (simp add: missing_column_None)
  from suspicious_timing_Inr [OF this, of to_datetime date_signed start_date] d
  have t: "suspicious_timing to_datetime df =
           Inr (\<lambda>r. if (\<exists>s d. stamp start_date (r ''period_startDate'') = Some s
                           \<and> stamp date_signed (r ''dateSigned'') = Some d \<and> s < d)
                    then 1 else 0)"
    by blast
  from engineer_features_v3_Inr [OF c t, of float_of]
  obtain ns where e: "engineer_features_v3 float_of to_datetime df =
           Inr \<lparr>columns = final_features_v2 @ [''supplier_id'', ''supplier_name''],
                numeric = ns,
                rows = map (\<lambda>r. (restrict_row final_features_v2
                              (advanced_features
                                 (\<lambda>r. if (\<exists>s d. stamp start_date (r ''period_startDate'') = Some s
                                          \<and> stamp date_signed (r ''dateSigned'') = Some d \<and> s < d)
                                      then 1 else 0)
                                 ''supplier_id'' df
                                 (projr (clean_currency float_of (r ''value_amount'')), r)))
                               (''supplier_id'' := r ''supplier_id'',
                                ''supplier_name'' := r ''name''))
                         (rows df)\<rparr>"
    by blast
  show "\<exists>out. engineer_features_v3 float_of to_datetime df = Inr out
             \<and> length (rows out) = length (rows df)
             \<and> (\<forall>i < length (rows df).
                   (rows out ! i) ''suspicious_timing''
                     = Num (if (\<exists>s d. stamp start_date ((rows df ! i) ''period_startDate'') = Some s
                                     \<and> stamp date_signed ((rows df ! i) ''dateSigned'') = Some d
                                     \<and> s < d)
                            then 1 else 0))"
    by (simp add: e advanced_features_cells)
next
  assume c: "missing_column df [''value_amount'', ''tender_procurementMethod'', ''dateSigned'',
                       ''period_startDate'', ''supplier_id'', ''name''] = None"
    and n: "\<not> dates_comparable to_datetime df"
  have "missing_column df [''value_amount'', ''tender_procurementMethod''] = None"
    using c by (simp add: missing_column_None)
  then show "\<exists>e. engineer_features_v3 float_of to_datetime df = Inl e"
    using engineer_features_raises(2) [OF n] by blast
qed

theorem suspicious_timing_both_dates_witness:
  "(\<exists>out. engineer_features_v2 float_sample datetime_sample example_merged_v2 = Inr out
      \<and> (rows out ! 0) ''suspicious_timing'' = Num 1
      \<and> (rows out ! 1) ''suspicious_timing'' = Num 0
      \<and> (rows out ! 2) ''suspicious_timing'' = Num 0)
   \<and> (\<exists>out. engineer_features_v3 float_sample datetime_sample example_merged_v3 = Inr out
      \<and> (rows out ! 0) ''suspicious_timing'' = Num 1
      \<and> (rows out ! 1) ''suspicious_timing'' = Num 0
      \<and> (rows out ! 2) ''suspicious_timing'' = Num 0)
   \<and> \<not> dates_comparable datetime_sample example_merged_tz
   \<and> (\<exists>e. engineer_features_v2 float_sample datetime_sample example_merged_tz = Inl e)
   \<and> (\<exists>e. engineer_features_v3 float_sample datetime_sample example_merged_tz = Inl e)"
proof -
  let ?p = "\<lparr>tz_aware = False, stamp = map_option fst \<circ> sample_timestamp\<rparr>"
  have d2: "datetime_sample (map (\<lambda>r. r ''dateSigned'') (rows example_merged_v2)) = Inr ?p
          \<and> datetime_sample (map (\<lambda>r. r ''period_startDate'') (rows example_merged_v2)) = Inr ?p
          \<and> tz_aware ?p = tz_aware ?p"
    by (simp add: example_merged_v2_def date_evals)
  have d3: "datetime_sample (map (\<lambda>r. r ''dateSigned'') (rows example_merged_v3)) = Inr ?p
          \<and> datetime_sample (map (\<lambda>r. r ''period_startDate'') (rows example_merged_v3)) = Inr ?p
          \<and> tz_aware ?p = tz_aware ?p"
    by (simp add: example_merged_v3_def date_evals)
  from suspicious_timing_both_dates [of example_merged_v2 datetime_sample float_sample,
         THEN conjunct1, rule_format, OF ex_cols(2), THEN conjunct1, rule_format, OF d2]
  obtain out2 where o2: "engineer_features_v2 float_sample datetime_sample example_merged_v2 = Inr out2"
    and n2: "\<forall>i < length (rows example_merged_v2).
               (rows out2 ! i) ''suspicious_timing''
                 = Num (if (\<exists>s d. stamp ?p ((rows example_merged_v2 ! i) ''period_startDate'') = Some s
                                 \<and> stamp ?p ((rows example_merged_v2 ! i) ''dateSigned'') = Some d
                                 \<and> s < d)
                        then 1 else 0)"
    by blast
  from suspicious_timing_both_dates [of example_merged_v3 datetime_sample float_sample,
         THEN conjunct2, rule_format, OF ex_cols(3), THEN conjunct1, rule_format, OF d3]
  obtain out3 where o3: "engineer_features_v3 float_sample datetime_sample example_merged_v3 = Inr out3"
    and n3: "\<forall>i < length (rows example_merged_v3).
               (rows out3 ! i) ''suspicious_timing''
                 = Num (if (\<exists>s d. stamp ?p ((rows example_merged_v3 ! i) ''period_startDate'') = Some s
                                 \<and> stamp ?p ((rows example_merged_v3 ! i) ''dateSigned'') = Some d
                                 \<and> s < d)
                        then 1 else 0)"
    by blast
  have "(rows out2 ! 0) ''suspicious_timing'' = Num 1"
    using n2 [rule_format, of 0] by (simp add: example_merged_v2_def date_evals)
  moreover have "(rows out2 ! 1) ''suspicious_timing'' = Num 0"
    using n2 [rule_format, of 1] by (simp add: example_merged_v2_def date_evals)
  moreover have "(rows out2 ! 2) ''suspicious_timing'' = Num 0"
    using n2 [rule_format, of 2] by (simp add: example_merged_v2_def date_evals)
  moreover have "(rows out3 ! 0) ''suspicious_timing'' = Num 1"
    using n3 [rule_format, of 0] by (simp add: example_merged_v3_def date_evals)
  moreover have "(rows out3 ! 1) ''suspicious_timing'' = Num 0"
    using n3 [rule_format, of 1] by (simp add: example_merged_v3_def date_evals)
  moreover have "(rows out3 ! 2) ''suspicious_timing'' = Num 0"
    using n3 [rule_format, of 2] by (simp add: example_merged_v3_def date_evals)
  moreover have z: "\<not> dates_comparable datetime_sample example_merged_tz"
    by (simp add: dates_comparable_def example_merged_tz_def date_evals)
  moreover have c2: "missing_column example_merged_tz
              [''value_amount'', ''tender_procurementMethod'', ''dateSigned'',
               ''period_startDate'', ''name''] = None"
    and c3: "missing_column example_merged_tz
              [''value_amount'', ''tender_procurementMethod'', ''dateSigned'',
               ''period_startDate'', ''supplier_id'', ''name''] = None"
    by (simp_all add: missing_column_def example_merged_tz_def)
  moreover have "\<exists>e. engineer_features_v2 float_sample datetime_sample example_merged_tz = Inl e"
    using suspicious_timing_both_dates [of example_merged_tz datetime_sample float_sample,
         THEN conjunct1, rule_format, OF c2, THEN conjunct2, rule_format, OF z] .
  moreover have "\<exists>e. engineer_features_v3 float_sample datetime_sample example_merged_tz = Inl e"
    using suspicious_timing_both_dates [of example_merged_tz datetime_sample float_sample,
         THEN conjunct2, rule_format, OF c3, THEN conjunct2, rule_format, OF z] .
  ultimately show ?thesis using o2 o3 by blast
qed

text \<open>
  A contract whose two dates both parse, with the start before the signature, and no
  flag: the signature dates are time-zone aware and the start dates are not, the
  comparison raises, and the feature function returns no frame.
\<close>

theorem suspicious_timing_tz_counterexample:
  "missing_column example_merged_tz
     [''value_amount'', ''tender_procurementMethod'', ''dateSigned'', ''period_startDate'',
      ''supplier_id'', ''name''] = None
   \<and> (\<exists>date_signed start_date s d.
         datetime_sample (map (\<lambda>r. r ''dateSigned'') (rows example_merged_tz)) = Inr date_signed
         \<and> datetime_sample (map (\<lambda>r. r ''period_startDate'') (rows example_merged_tz))
             = Inr start_date
         \<and> stamp start_date ((rows example_merged_tz ! 0) ''period_startDate'') = Some s
         \<and> stamp date_signed ((rows example_merged_tz ! 0) ''dateSigned'') = Some d
         \<and> s < d)
   \<and> engineer_features_v2 float_sample datetime_sample example_merged_tz = Inl TypeError
   \<and> engineer_features_v3 float_sample datetime_sample example_merged_tz = Inl TypeError"
proof -
  have "missing_column example_merged_tz
     [''value_amount'', ''tender_procurementMethod'', ''dateSigned'', ''period_startDate'',
      ''supplier_id'', ''name''] = None"
    by (simp add: missing_column_def example_merged_tz_def)
  moreover have "\<exists>date_signed start_date s d.
         datetime_sample (map (\<lambda>r. r ''dateSigned'') (rows example_merged_tz)) = Inr date_signed
         \<and> datetime_sample (map (\<lambda>r. r ''period_startDate'') (rows example_merged_tz))
             = Inr start_date
         \<and> stamp start_date ((rows example_merged_tz ! 0) ''period_startDate'') = Some s
         \<and> stamp date_signed ((rows example_merged_tz ! 0) ''dateSigned'') = Some d
         \<and> s < d"
    by (simp add: example_merged_tz_def date_evals)
  ultimately show ?thesis using ex_tz_features by blast
qed

section \<open>Properties of the loaders\<close>

subsection \<open>Reading, columns and failures\<close>

lemma read_csv_Inl_iff:
  "(\<exists>e. read_csv fs path cols = Inl e) \<longleftrightarrow> load_failure fs path cols"
  by (auto simp: read_csv_def load_failure_def list_all_iff list_ex_iff split: option.splits)

lemma read_csv_columns:
  "read_csv fs path cols = Inr df \<Longrightarrow> set (columns df) = set cols"
  by (auto simp: read_csv_def list_all_iff split: option.splits if_splits)

lemma read_csv_rows:
  "read_csv fs path cols = Inr df \<Longrightarrow> fs path = Some t \<Longrightarrow> rows df = map (restrict_row cols) (rows t)"
  by (auto simp: read_csv_def list_all_iff split: option.splits if_splits)

lemma read_csv_numeric:
  "read_csv fs path cols = Inr df \<Longrightarrow> fs path = Some t \<Longrightarrow> c \<in> set cols \<Longrightarrow>
     c \<in> set (numeric df) \<longleftrightarrow> rows t \<noteq> [] \<and> \<not> list_ex (\<lambda>r. is_str (r c)) (rows t)"
  by (auto simp: read_csv_def list_all_iff inferred_numeric_def split: option.splits if_splits)

lemma merged_columns_set: "set (merged_columns l r) = set (columns l) \<union> set (columns r)"
  by (auto simp: merged_columns_def)

lemma merge_inner_Inr:
  assumes "merge_inner l r k1 k2 = Inr m"
  shows "columns m = merged_columns l r" "numeric m = merged_numeric l r"
    "rows m = inner_rows l r k1 k2"
  using assms by (auto simp: merge_inner_def split: if_splits)

lemma merge_left_Inr:
  assumes "merge_left l r k = Inr m"
  shows "columns m = merged_columns l r" "numeric m = merged_numeric l r"
    "rows m = left_rows l r k"
  using assms by (auto simp: merge_left_def split: if_splits)

lemma columns_simps:
  "columns (drop_duplicates key df) = columns df"
  "columns (set_column c vs df) = columns df"
  "columns (rename_column old new df) = map (\<lambda>c. if c = old then new else c) (columns df)"
  by (simp_all add: drop_duplicates_def set_column_def rename_column_def)

lemma load_failure_None:
  "load_failure fs MAIN_FILE [''_link'', ''tender_procurementMethod'']
     \<or> load_failure fs AWARDS_FILE [''_link_main'', ''value_amount'']
   \<Longrightarrow> load_and_merge fs = None"
  "load_failure fs MAIN_FILE [''_link'', ''tender_procurementMethod'']
     \<or> load_failure fs AWARDS_FILE [''_link_main'', ''value_amount'']
     \<or> load_failure fs CONTRACTS_FILE [''_link_main'', ''dateSigned'', ''period_startDate'']
     \<or> load_failure fs SUPPLIERS_FILE [''_link_main'', ''name'']
   \<Longrightarrow> load_and_merge_v2 strip upper fs = None"
  "load_failure fs MAIN_FILE [''_link'', ''tender_procurementMethod'']
     \<or> load_failure fs AWARDS_FILE [''_link_main'', ''value_amount'']
     \<or> load_failure fs CONTRACTS_FILE [''_link_main'', ''dateSigned'', ''period_startDate'']
     \<or> load_failure fs SUPPLIERS_FILE [''_link_main'', ''id'', ''name'']
   \<Longrightarrow> load_and_merge_v3 fs = None"
  unfolding read_csv_Inl_iff [symmetric]
  by (auto simp: load_and_merge_def load_and_merge_v2_def load_and_merge_v3_def
        split: sum.splits)

lemma name_column_failure_None:
  assumes "name_column_failure fs"
  shows "load_and_merge_v2 strip upper fs = None"
proof (cases "read_csv fs SUPPLIERS_FILE [''_link_main'', ''name'']")
  case (Inl e)
  then show ?thesis by (simp add: load_and_merge_v2_def split: sum.splits)
next
  case (Inr suppliers_df)
  from assms obtain t where t: "fs SUPPLIERS_FILE = Some t"
    and n: "rows t \<noteq> [] \<and> \<not> list_ex (\<lambda>r. is_str (r ''name'')) (rows t)"
    by (auto simp: name_column_failure_def split: option.splits)
  have "''name'' \<in> set (numeric suppliers_df)"
    using read_csv_numeric [OF Inr t, of "''name''"] n by simp
  then have "str_strip_upper strip upper suppliers_df ''name'' = Inl AttributeError"
    by (simp add: str_strip_upper_def)
  then show ?thesis using Inr by (simp add: load_and_merge_v2_def split: sum.splits)
qed

lemma load_and_merge_columns:
  assumes "load_and_merge fs = Some merged"
  shows "missing_column merged [''value_amount'', ''tender_procurementMethod''] = None"
  using assms
  by (auto simp: load_and_merge_def Let_def missing_column_None columns_simps merged_columns_set
        dest!: read_csv_columns merge_inner_Inr(1) split: sum.splits)

lemma load_and_merge_v3_columns:
  assumes "load_and_merge_v3 fs = Some merged"
  shows "missing_column merged [''value_amount'', ''tender_procurementMethod'', ''dateSigned'',
                              ''period_startDate'', ''supplier_id'', ''name''] = None"
  using assms
  by (auto simp: load_and_merge_v3_def Let_def missing_column_None columns_simps merged_columns_set
        dest!: read_csv_columns merge_inner_Inr(1) merge_left_Inr(1) split: sum.splits)

lemma load_and_merge_v2_columns:
  assumes "load_and_merge_v2 strip upper fs = Some merged"
  shows "missing_column merged [''value_amount'', ''tender_procurementMethod'', ''dateSigned'',
                              ''period_startDate'', ''name''] = None"
  using assms
  by (auto simp: load_and_merge_v2_def Let_def missing_column_None columns_simps merged_columns_set
        dest!: read_csv_columns merge_inner_Inr(1) merge_left_Inr(1) split: sum.splits)

subsection \<open>Joins on a deduplicated table\<close>

lemma filter_distinct_key:
  "distinct (map f xs) \<Longrightarrow>
     filter (\<lambda>r. f r = k) xs = (case find (\<lambda>r. f r = k) xs of None \<Rightarrow> [] | Some r \<Rightarrow> [r])"
proof (induction xs)
  case Nil
  show ?case by simp
next
  case (Cons x xs)
  show ?case
  proof (cases "f x = k")
    case True
    with Cons.prems have "\<forall>y \<in> set xs. f y \<noteq> k" by (auto simp: image_iff)
    then have "filter (\<lambda>r. f r = k) xs = []" by (simp add: filter_empty_conv)
    with True show ?thesis by simp
  next
    case False
    with Cons show ?thesis by simp
  qed
qed

lemma find_None_image: "find (\<lambda>r. f r = k) xs = None \<longleftrightarrow> k \<notin> f ` set xs"
  by (auto simp: find_None_iff)

lemma left_rows_distinct:
  assumes "distinct (map (\<lambda>r. r on) (rows right))"
  shows "left_rows left right on =
           map (\<lambda>l. merge_rows (columns left) l (lookup_first on (l on) (rows right))) (rows left)"
proof -
  have "(case filter (\<lambda>r. r on = k) (rows right) of
           [] \<Rightarrow> [merge_rows cs l na_row]
         | ms \<Rightarrow> map (merge_rows cs l) ms)
        = [merge_rows cs l (lookup_first on k (rows right))]" for k cs l
    by (simp add: filter_distinct_key [OF assms] lookup_first_def split: option.splits)
  then show ?thesis
    by (simp add: left_rows_def concat_map_singleton)
qed

lemma inner_rows_distinct:
  assumes "distinct (map (\<lambda>r. r k2) (rows right))"
  shows "inner_rows left right k1 k2 =
           map (\<lambda>l. merge_rows (columns left) l (lookup_first k2 (l k1) (rows right)))
               (filter (\<lambda>l. l k1 \<in> (\<lambda>r. r k2) ` set (rows right)) (rows left))"
proof -
  have "concat (map (\<lambda>l. map (merge_rows cs l) (filter (\<lambda>r. r k2 = l k1) (rows right))) ls)
          = map (\<lambda>l. merge_rows cs l (lookup_first k2 (l k1) (rows right)))
               (filter (\<lambda>l. l k1 \<in> (\<lambda>r. r k2) ` set (rows right)) ls)" for cs ls
  proof (induction ls)
    case Nil
    show ?case by simp
  next
    case (Cons l ls)
    show ?case
    proof (cases "find (\<lambda>r. r k2 = l k1) (rows right)")
      case None
      then have "l k1 \<notin> (\<lambda>r. r k2) ` set (rows right)" by (simp add: find_None_image)
      with None Cons show ?thesis by (simp add: filter_distinct_key [OF assms])
    next
      case (Some r)
      then have "l k1 \<in> (\<lambda>r. r k2) ` set (rows right)"
        using find_None_image [of "\<lambda>r. r k2" "l k1" "rows right"] by simp
      with Some Cons show ?thesis
        by (simp add: filter_distinct_key [OF assms] lookup_first_def)
    qed
  qed
  then show ?thesis by (simp add: inner_rows_def)
qed

lemma lookup_first_drop_duplicates:
  "lookup_first key k (rows (drop_duplicates key df)) = lookup_first key k (rows df)"
  by (simp add: lookup_first_def drop_duplicates_def drop_dup_rows_find)

lemma keys_drop_duplicates:
  "(\<lambda>r. r key) ` set (rows (drop_duplicates key df)) = (\<lambda>r. r key) ` set (rows df)"
  using drop_dup_rows_keys [of key "[]" "rows df"] by (simp add: drop_duplicates_def)

lemma distinct_drop_duplicates:
  "distinct (map (\<lambda>r. r key) (rows (drop_duplicates key df)))"
  by (simp add: drop_duplicates_def drop_dup_rows_distinct)

lemma lookup_first_key:
  "k \<in> (\<lambda>r. r key) ` set rs \<Longrightarrow> lookup_first key k rs key = k"
  by (induction rs) (auto simp: lookup_first_def)

lemma length_join_pairs:
  assumes "distinct (map (\<lambda>a. a k2) as)"
  shows "length (filter (\<lambda>(t, a). a k2 = t k1) (List.product ts as))
           = length (filter (\<lambda>t. t k1 \<in> (\<lambda>a. a k2) ` set as) ts)"
proof (induction ts)
  case Nil
  show ?case by simp
next
  case (Cons t ts)
  have "length (filter (\<lambda>(t, a). a k2 = t k1) (map (Pair t) as))
          = length (filter (\<lambda>a. a k2 = t k1) as)"
    by (simp add: filter_map comp_def)
  also have "\<dots> = (if t k1 \<in> (\<lambda>a. a k2) ` set as then 1 else 0)"
    using find_None_image [of "\<lambda>a. a k2" "t k1" as]
    by (simp add: filter_distinct_key [OF assms] split: option.splits)
  finally show ?case using Cons by simp
qed

lemma zip_self_map: "zip xs (map f xs) = map (\<lambda>x. (x, f x)) xs"
  by (induction xs) auto

lemma str_strip_upper_Inr:
  "str_strip_upper strip upper df c = Inr ys \<Longrightarrow>
     ys = map (strip_upper_cell strip upper) (map (\<lambda>r. r c) (rows df))"
  by (simp add: str_strip_upper_def split: if_splits)

lemma set_column_map:
  "rows (set_column c (map f (map (\<lambda>r. r c) (rows df))) df) = map (\<lambda>r. r(c := f (r c))) (rows df)"
  by (simp add: set_column_def zip_self_map comp_def)

lemma filter_map_restrict:
  "c \<in> set cols \<Longrightarrow>
     filter (\<lambda>l. l c \<in> K) (map (restrict_row cols) xs) = map (restrict_row cols) (filter (\<lambda>t. t c \<in> K) xs)"
  by (induction xs) (auto simp: restrict_row_def)

lemma keys_restrict:
  "c \<in> set cols \<Longrightarrow> (\<lambda>r. r c) ` set (map (restrict_row cols) xs) = (\<lambda>r. r c) ` set xs"
  by (auto simp: restrict_row_def image_iff)

lemma lookup_first_map_at:
  assumes "\<And>r. f r key = r key" and "\<And>r. f r c = g (r c')" and "g NA = NA"
  shows "lookup_first key k (map f rs) c = g (lookup_first key k rs c')"
  by (induction rs) (auto simp: lookup_first_def assms na_row_def)

lemma load_and_merge_v2_cells:
  assumes tm: "fs MAIN_FILE = Some tm" and ta: "fs AWARDS_FILE = Some ta"
    and tc: "fs CONTRACTS_FILE = Some tc" and ts: "fs SUPPLIERS_FILE = Some ts"
    and load: "load_and_merge_v2 strip upper fs = Some merged"
  shows "map (\<lambda>m. map m [''_link'', ''tender_procurementMethod'', ''_link_main'', ''value_amount'',
                         ''dateSigned'', ''period_startDate'', ''name'']) (rows merged)
           = map (\<lambda>t. [t ''_link'', t ''tender_procurementMethod'', t ''_link'',
                        lookup_first ''_link_main'' (t ''_link'') (rows ta) ''value_amount'',
                        lookup_first ''_link_main'' (t ''_link'') (rows tc) ''dateSigned'',
                        lookup_first ''_link_main'' (t ''_link'') (rows tc) ''period_startDate'',
                        strip_upper_cell strip upper
                          (lookup_first ''_link_main'' (t ''_link'') (rows ts) ''name'')])
                 (filter (\<lambda>t. t ''_link'' \<in> (\<lambda>a. a ''_link_main'') ` set (rows ta)) (rows tm))"
proof -
  let ?mc = "[''_link'', ''tender_procurementMethod'']"
  let ?ac = "[''_link_main'', ''value_amount'']"
  let ?cc = "[''_link_main'', ''dateSigned'', ''period_startDate'']"
  let ?sc = "[''_link_main'', ''name'']"
  from load obtain main_df awards_df contracts_df suppliers_df names M1 M2 where
    rm: "read_csv fs MAIN_FILE ?mc = Inr main_df" and
    ra: "read_csv fs AWARDS_FILE ?ac = Inr awards_df" and
    rc: "read_csv fs CONTRACTS_FILE ?cc = Inr contracts_df" and
    rs: "read_csv fs SUPPLIERS_FILE ?sc = Inr suppliers_df" and
    nm: "str_strip_upper strip upper suppliers_df ''name'' = Inr names" and
    m1: "merge_inner main_df (drop_duplicates ''_link_main'' awards_df) ''_link'' ''_link_main''
           = Inr M1" and
    m2: "merge_left M1 (drop_duplicates ''_link_main'' contracts_df) ''_link_main'' = Inr M2" and
    m3: "merge_left M2 (drop_duplicates ''_link_main'' (set_column ''name'' names suppliers_df))
           ''_link_main'' = Inr merged"
    by (auto simp: load_and_merge_v2_def Let_def split: sum.splits)
  let ?K = "(\<lambda>a. a ''_link_main'') ` set (rows ta)"
  let ?X = "filter (\<lambda>t. t ''_link'' \<in> ?K) (rows tm)"
  let ?A = "drop_duplicates ''_link_main'' awards_df"
  let ?C = "drop_duplicates ''_link_main'' contracts_df"
  let ?S = "drop_duplicates ''_link_main'' (set_column ''name'' names suppliers_df)"
  have cm: "set (columns main_df) = set ?mc" and ca: "set (columns awards_df) = set ?ac"
    and cc: "set (columns contracts_df) = set ?cc"
    using rm ra rc by (auto dest: read_csv_columns)
  have rows_m: "rows main_df = map (restrict_row ?mc) (rows tm)"
    and rows_a: "rows awards_df = map (restrict_row ?ac) (rows ta)"
    and rows_c: "rows contracts_df = map (restrict_row ?cc) (rows tc)"
    and rows_s: "rows suppliers_df = map (restrict_row ?sc) (rows ts)"
    using rm ra rc rs tm ta tc ts by (auto dest: read_csv_rows)
  have names: "names = map (strip_upper_cell strip upper) (map (\<lambda>r. r ''name'') (rows suppliers_df))"
    using nm by (rule str_strip_upper_Inr)
  have keysA: "(\<lambda>r. r ''_link_main'') ` set (rows ?A) = ?K"
    by (simp add: keys_drop_duplicates rows_a keys_restrict del: set_map)
  have LA: "lookup_first ''_link_main'' k (rows ?A) c
              = lookup_first ''_link_main'' k (rows ta) c" if "c \<in> set ?ac" for k c
    unfolding lookup_first_drop_duplicates rows_a
    by (rule lookup_first_map_at [where g = "\<lambda>x. x", simplified])
       (use that in \<open>auto simp: restrict_row_def\<close>)
  have LC: "lookup_first ''_link_main'' k (rows ?C) c
              = lookup_first ''_link_main'' k (rows tc) c" if "c \<in> set ?cc" for k c
    unfolding lookup_first_drop_duplicates rows_c
    by (rule lookup_first_map_at [where g = "\<lambda>x. x", simplified])
       (use that in \<open>auto simp: restrict_row_def\<close>)
  have LS: "lookup_first ''_link_main'' k (rows ?S) ''name''
              = strip_upper_cell strip upper (lookup_first ''_link_main'' k (rows ts) ''name'')" for k
  proof -
    have "rows (set_column ''name'' names suppliers_df)
            = map (\<lambda>r. r(''name'' := strip_upper_cell strip upper (r ''name''))) (rows suppliers_df)"
      unfolding names by (rule set_column_map)
    then have "rows (set_column ''name'' names suppliers_df)
            = map (\<lambda>r. (restrict_row ?sc r)(''name'' := strip_upper_cell strip upper (r ''name''))) (rows ts)"
      by (simp add: rows_s comp_def restrict_row_def)
    then show ?thesis
      unfolding lookup_first_drop_duplicates
      by (simp only:) (rule lookup_first_map_at, auto simp: restrict_row_def strip_upper_cell_def)
  qed
  have r1: "rows M1 = map (\<lambda>t. merge_rows (columns main_df) (restrict_row ?mc t)
                                  (lookup_first ''_link_main'' (t ''_link'') (rows ?A))) ?X"
    unfolding merge_inner_Inr(3) [OF m1] inner_rows_distinct [OF distinct_drop_duplicates]
      keysA rows_m
    by (simp add: filter_map_restrict comp_def restrict_row_def)
  have r2: "rows M2 = map (\<lambda>l. merge_rows (columns M1) l
                                  (lookup_first ''_link_main'' (l ''_link_main'') (rows ?C)))
                           (rows M1)"
    unfolding merge_left_Inr(3) [OF m2] by (rule left_rows_distinct [OF distinct_drop_duplicates])
  have r3: "rows merged = map (\<lambda>l. merge_rows (columns M2) l
                                  (lookup_first ''_link_main'' (l ''_link_main'') (rows ?S)))
                           (rows M2)"
    unfolding merge_left_Inr(3) [OF m3] by (rule left_rows_distinct [OF distinct_drop_duplicates])
  have c1: "set (columns M1) = set ?mc \<union> set ?ac"
    by (simp add: merge_inner_Inr(1) [OF m1] columns_simps merged_columns_set cm ca)
  have c2: "set (columns M2) = set ?mc \<union> set ?ac \<union> set ?cc"
    by (simp add: merge_left_Inr(1) [OF m2] merge_inner_Inr(1) [OF m1] columns_simps
          merged_columns_set cm ca cc)
  have key: "lookup_first ''_link_main'' (t ''_link'') (rows ta) ''_link_main'' = t ''_link''"
    if "t \<in> set ?X" for t
    using that by (simp add: lookup_first_key)
  show ?thesis
    unfolding r3 r2 r1 map_map comp_def
    by (rule map_cong [OF refl])
       (simp add: merge_rows_def c1 c2 cm LA LC LS key restrict_row_def)
qed

lemma load_and_merge_v3_cells:
  assumes tm: "fs MAIN_FILE = Some tm" and ta: "fs AWARDS_FILE = Some ta"
    and tc: "fs CONTRACTS_FILE = Some tc" and ts: "fs SUPPLIERS_FILE = Some ts"
    and load: "load_and_merge_v3 fs = Some merged"
  shows "map (\<lambda>m. map m [''_link'', ''tender_procurementMethod'', ''_link_main'', ''value_amount'',
                         ''dateSigned'', ''period_startDate'', ''supplier_id'', ''name''])
              (rows merged)
           = map (\<lambda>t. [t ''_link'', t ''tender_procurementMethod'', t ''_link'',
                        lookup_first ''_link_main'' (t ''_link'') (rows ta) ''value_amount'',
                        lookup_first ''_link_main'' (t ''_link'') (rows tc) ''dateSigned'',
                        lookup_first ''_link_main'' (t ''_link'') (rows tc) ''period_startDate'',
                        lookup_first ''_link_main'' (t ''_link'') (rows ts) ''id'',
                        lookup_first ''_link_main'' (t ''_link'') (rows ts) ''name''])
                 (filter (\<lambda>t. t ''_link'' \<in> (\<lambda>a. a ''_link_main'') ` set (rows ta)) (rows tm))"
proof -
  let ?mc = "[''_link'', ''tender_procurementMethod'']"
  let ?ac = "[''_link_main'', ''value_amount'']"
  let ?cc = "[''_link_main'', ''dateSigned'', ''period_startDate'']"
  let ?sc = "[''_link_main'', ''id'', ''name'']"
  from load obtain main_df awards_df contracts_df suppliers_df M1 M2 where
    rm: "read_csv fs MAIN_FILE ?mc = Inr main_df" and
    ra: "read_csv fs AWARDS_FILE ?ac = Inr awards_df" and
    rc: "read_csv fs CONTRACTS_FILE ?cc = Inr contracts_df" and
    rs: "read_csv fs SUPPLIERS_FILE ?sc = Inr suppliers_df" and
    m1: "merge_inner main_df (drop_duplicates ''_link_main'' awards_df) ''_link'' ''_link_main''
           = Inr M1" and
    m2: "merge_left M1 (drop_duplicates ''_link_main'' contracts_df) ''_link_main'' = Inr M2" and
    m3: "merge_left M2 (drop_duplicates ''_link_main''
                          (rename_column ''id'' ''supplier_id'' suppliers_df))
           ''_link_main'' = Inr merged"
    by (auto simp: load_and_merge_v3_def Let_def split: sum.splits)
  let ?K = "(\<lambda>a. a ''_link_main'') ` set (rows ta)"
  let ?X = "filter (\<lambda>t. t ''_link'' \<in> ?K) (rows tm)"
  let ?A = "drop_duplicates ''_link_main'' awards_df"
  let ?C = "drop_duplicates ''_link_main'' contracts_df"
  let ?S = "drop_duplicates ''_link_main'' (rename_column ''id'' ''supplier_id'' suppliers_df)"
  have cm: "set (columns main_df) = set ?mc" and ca: "set (columns awards_df) = set ?ac"
    and cc: "set (columns contracts_df) = set ?cc"
    using rm ra rc by (auto dest: read_csv_columns)
  have rows_m: "rows main_df = map (restrict_row ?mc) (rows tm)"
    and rows_a: "rows awards_df = map (restrict_row ?ac) (rows ta)"
    and rows_c: "rows contracts_df = map (restrict_row ?cc) (rows tc)"
    and rows_s: "rows suppliers_df = map (restrict_row ?sc) (rows ts)"
    using rm ra rc rs tm ta tc ts by (auto dest: read_csv_rows)
  have keysA: "(\<lambda>r. r ''_link_main'') ` set (rows ?A) = ?K"
    by (simp add: keys_drop_duplicates rows_a keys_restrict del: set_map)
  have LA: "lookup_first ''_link_main'' k (rows ?A) c
              = lookup_first ''_link_main'' k (rows ta) c" if "c \<in> set ?ac" for k c
    unfolding lookup_first_drop_duplicates rows_a
    by (rule lookup_first_map_at [where g = "\<lambda>x. x", simplified])
       (use that in \<open>auto simp: restrict_row_def\<close>)
  have LC: "lookup_first ''_link_main'' k (rows ?C) c
              = lookup_first ''_link_main'' k (rows tc) c" if "c \<in> set ?cc" for k c
    unfolding lookup_first_drop_duplicates rows_c
    by (rule lookup_first_map_at [where g = "\<lambda>x. x", simplified])
       (use that in \<open>auto simp: restrict_row_def\<close>)
  have rows_S: "rows (rename_column ''id'' ''supplier_id'' suppliers_df)
            = map (\<lambda>r. ((restrict_row ?sc r)(''supplier_id'' := r ''id''))(''id'' := NA)) (rows ts)"
    by (simp add: rename_column_def rows_s comp_def restrict_row_def)
  have LS: "lookup_first ''_link_main'' k (rows ?S) ''supplier_id''
              = lookup_first ''_link_main'' k (rows ts) ''id''"
           "lookup_first ''_link_main'' k (rows ?S) ''name''
              = lookup_first ''_link_main'' k (rows ts) ''name''" for k
    unfolding lookup_first_drop_duplicates rows_S
    by (rule lookup_first_map_at [where g = "\<lambda>x. x", simplified]; simp add: restrict_row_def)+
  have r1: "rows M1 = map (\<lambda>t. merge_rows (columns main_df) (restrict_row ?mc t)
                                  (lookup_first ''_link_main'' (t ''_link'') (rows ?A))) ?X"
    unfolding merge_inner_Inr(3) [OF m1] inner_rows_distinct [OF distinct_drop_duplicates]
      keysA rows_m
    by (simp add: filter_map_restrict comp_def restrict_row_def)
  have r2: "rows M2 = map (\<lambda>l. merge_rows (columns M1) l
                                  (lookup_first ''_link_main'' (l ''_link_main'') (rows ?C)))
                           (rows M1)"
    unfolding merge_left_Inr(3) [OF m2] by (rule left_rows_distinct [OF distinct_drop_duplicates])
  have r3: "rows merged = map (\<lambda>l. merge_rows (columns M2) l
                                  (lookup_first ''_link_main'' (l ''_link_main'') (rows ?S)))
                           (rows M2)"
    unfolding merge_left_Inr(3) [OF m3] by (rule left_rows_distinct [OF distinct_drop_duplicates])
  have c1: "set (columns M1) = set ?mc \<union> set ?ac"
    by (simp add: merge_inner_Inr(1) [OF m1] columns_simps merged_columns_set cm ca)
  have c2: "set (columns M2) = set ?mc \<union> set ?ac \<union> set ?cc"
    by (simp add: merge_left_Inr(1) [OF m2] merge_inner_Inr(1) [OF m1] columns_simps
          merged_columns_set cm ca cc)
  have key: "lookup_first ''_link_main'' (t ''_link'') (rows ta) ''_link_main'' = t ''_link''"
    if "t \<in> set ?X" for t
    using that by (simp add: lookup_first_key)
  show ?thesis
    unfolding r3 r2 r1 map_map comp_def
    by (rule map_cong [OF refl])
       (simp add: merge_rows_def c1 c2 cm LA LC LS key restrict_row_def)
qed

lemma cells_length:
  "map (\<lambda>m. map m cols) ms = map G X \<Longrightarrow> length ms = length X"
  by (metis length_map)

lemma cells_column:
  assumes "map (\<lambda>m. map m cols) ms = map G X" and "i < length cols"
  shows "map (\<lambda>m. m (cols ! i)) ms = map (\<lambda>t. G t ! i) X"
proof -
  have "map (\<lambda>m. m (cols ! i)) ms = map (\<lambda>l. l ! i) (map (\<lambda>m. map m cols) ms)"
    using assms(2) by simp
  also have "\<dots> = map (\<lambda>l. l ! i) (map G X)" by (simp only: assms(1))
  finally show ?thesis by (simp add: comp_def)
qed


subsection \<open>The sample files, loaded\<close>

lemmas sample_paths = MAIN_FILE_def AWARDS_FILE_def CONTRACTS_FILE_def SUPPLIERS_FILE_def

lemma example_files_lookup:
  "example_files MAIN_FILE = Some example_main"
  "example_files AWARDS_FILE = Some example_awards"
  "example_files CONTRACTS_FILE = Some example_contracts"
  "example_files SUPPLIERS_FILE = Some example_suppliers"
  by (simp_all add: example_files_def sample_paths)

lemma example_files_load:
  "\<not> load_failure example_files MAIN_FILE [''_link'', ''tender_procurementMethod'']"
  "\<not> load_failure example_files AWARDS_FILE [''_link_main'', ''value_amount'']"
  "\<not> load_failure example_files CONTRACTS_FILE [''_link_main'', ''dateSigned'', ''period_startDate'']"
  "\<not> load_failure example_files SUPPLIERS_FILE [''_link_main'', ''name'']"
  "\<not> load_failure example_files SUPPLIERS_FILE [''_link_main'', ''id'', ''name'']"
  "\<not> name_column_failure example_files"
  by (simp_all add: load_failure_def name_column_failure_def example_files_lookup)
     (simp_all add: example_main_def example_awards_def example_contracts_def
        example_suppliers_def is_str_def mk_row_def)

lemma is_none_the: "\<not> Option.is_none x \<Longrightarrow> x = Some (the x)"
  by (cases x) simp_all

lemma example_loaded:
  "load_and_merge example_files = Some (the (load_and_merge example_files))"
  "load_and_merge_v2 strip_sample upper_sample example_files
     = Some (the (load_and_merge_v2 strip_sample upper_sample example_files))"
  "load_and_merge_v3 example_files = Some (the (load_and_merge_v3 example_files))"
  by (rule is_none_the, code_simp)+

lemmas sample_evals =
  example_main_def example_awards_def example_contracts_def example_suppliers_def
  lookup_first_def mk_row_def na_row_def strip_upper_cell_def upper_sample_def strip_sample_def
  upper_char_def is_space_def drop_duplicates_def

lemma example_merged_cells:
  "map (\<lambda>m. map m [''_link'', ''tender_procurementMethod'', ''_link_main'', ''value_amount'',
                    ''dateSigned'', ''period_startDate'', ''name''])
       (rows (the (load_and_merge_v2 strip_sample upper_sample example_files)))
     = [[Str ''c1'', Str ''Direct'', Str ''c1'', Str ''KES 5,000'', Str ''2020-02-01'',
         Str ''2020-01-01'', Str ''ACME LTD''],
        [Str ''c2'', Str ''Open'', Str ''c2'', Str ''1500'', Str ''soon'', Str ''2020-01-01'',
         Str ''ACME LTD''],
        [Str ''c3'', NA, Str ''c3'', Str ''TBD'', NA, NA, NA]]"
  "map (\<lambda>m. map m [''_link'', ''tender_procurementMethod'', ''_link_main'', ''value_amount'',
                      ''dateSigned'', ''period_startDate'', ''supplier_id'', ''name''])
         (rows (the (load_and_merge_v3 example_files)))
     = [[Str ''c1'', Str ''Direct'', Str ''c1'', Str ''KES 5,000'', Str ''2020-02-01'',
         Str ''2020-01-01'', Str ''S1'', Str '' acme ltd''],
        [Str ''c2'', Str ''Open'', Str ''c2'', Str ''1500'', Str ''soon'', Str ''2020-01-01'',
         Str ''S1'', Str ''ACME LTD ''],
        [Str ''c3'', NA, Str ''c3'', Str ''TBD'', NA, NA, NA, NA]]"
proof -
  show "map (\<lambda>m. map m [''_link'', ''tender_procurementMethod'', ''_link_main'', ''value_amount'',
                    ''dateSigned'', ''period_startDate'', ''name''])
       (rows (the (load_and_merge_v2 strip_sample upper_sample example_files)))
     = [[Str ''c1'', Str ''Direct'', Str ''c1'', Str ''KES 5,000'', Str ''2020-02-01'',
         Str ''2020-01-01'', Str ''ACME LTD''],
        [Str ''c2'', Str ''Open'', Str ''c2'', Str ''1500'', Str ''soon'', Str ''2020-01-01'',
         Str ''ACME LTD''],
        [Str ''c3'', NA, Str ''c3'', Str ''TBD'', NA, NA, NA]]"
    unfolding load_and_merge_v2_cells [OF example_files_lookup example_loaded(2)]
    by (simp add: sample_evals)
  show "map (\<lambda>m. map m [''_link'', ''tender_procurementMethod'', ''_link_main'', ''value_amount'',
                      ''dateSigned'', ''period_startDate'', ''supplier_id'', ''name''])
         (rows (the (load_and_merge_v3 example_files)))
     = [[Str ''c1'', Str ''Direct'', Str ''c1'', Str ''KES 5,000'', Str ''2020-02-01'',
         Str ''2020-01-01'', Str ''S1'', Str '' acme ltd''],
        [Str ''c2'', Str ''Open'', Str ''c2'', Str ''1500'', Str ''soon'', Str ''2020-01-01'',
         Str ''S1'', Str ''ACME LTD ''],
        [Str ''c3'', NA, Str ''c3'', Str ''TBD'', NA, NA, NA, NA]]"
    unfolding load_and_merge_v3_cells [OF example_files_lookup example_loaded(3)]
    by (simp add: sample_evals)
qed

lemma example_merged_length:
  "length (rows (the (load_and_merge example_files))) = 3"
  "length (rows (the (load_and_merge_v2 strip_sample upper_sample example_files))) = 3"
  "length (rows (the (load_and_merge_v3 example_files))) = 3"
proof -
  show "length (rows (the (load_and_merge example_files))) = 3"
    by code_simp
  show "length (rows (the (load_and_merge_v2 strip_sample upper_sample example_files))) = 3"
    using arg_cong [OF example_merged_cells(1), of length] by simp
  show "length (rows (the (load_and_merge_v3 example_files))) = 3"
    using arg_cong [OF example_merged_cells(2), of length] by simp
qed


end
